theory Spec2Isabelle
  imports Complex_Main
begin

section \<open>Numbers, errors and the browser environment\<close>

text \<open>
  The repository holds two copies of one script: \<^verbatim>\<open>src/unnamed/part_000\<close> (the enhanced copy,
  with pointer repulsion, pulse phases, connections and a neural pattern) and
  \<^verbatim>\<open>src/app.js\<close> (the simpler copy). Definitions without a suffix embed the enhanced copy;
  definitions ending in \<open>_app\<close> embed \<^verbatim>\<open>src/app.js\<close>.

  JavaScript numbers are modelled as \<^typ>\<open>real\<close>: rounding, infinities and NaN of IEEE
  doubles are outside this embedding. A record field whose source name is a variable name or a
  HOL constant (\<open>x\<close>, \<open>y\<close>, \<open>size\<close>, \<open>top\<close>, \<open>type\<close>) carries a short prefix.
\<close>

datatype error = TypeError

text \<open>\<^verbatim>\<open>Math.atan2(y, x)\<close> on reals (signed zeros not modelled).\<close>

definition atan2 :: "real \<Rightarrow> real \<Rightarrow> real" where
  "atan2 b a =
     (if 0 < a then arctan (b / a)
      else if a < 0 \<and> 0 \<le> b then arctan (b / a) + pi
      else if a < 0 then arctan (b / a) - pi
      else if 0 < b then pi / 2
      else if b < 0 then - (pi / 2)
      else 0)"

text \<open>The result of \<^verbatim>\<open>canvas.getBoundingClientRect()\<close>.\<close>

record rect =
  r_left :: real
  r_top :: real
  r_width :: real
  r_height :: real

text \<open>
  A canvas element, as far as the scenes use it: the layout box it reports, its integer client
  size, whether \<^verbatim>\<open>getContext('2d')\<close> yields a context, and the buffer and style sizes that
  \<^verbatim>\<open>setupCanvas\<close> assigns.
\<close>

record canvas =
  boundingRect :: rect
  clientWidth :: nat
  clientHeight :: nat
  context2d :: bool
  bufWidth :: real
  bufHeight :: real
  styleWidth :: real
  styleHeight :: real

text \<open>
  A 2D context is modelled by the list of calls made on it so far, property assignments
  included, oldest first.
\<close>

datatype cmd =
    Save | Restore | Scale real real | Translate real real | Rotate real
  | ClearRect real real real real | StrokeRect real real real real
  | BeginPath | ClosePath | MoveTo real real | LineTo real real
  | Arc real real real real real | Stroke | Fill
  | StrokeStyle string | FillStyle string | LineWidth real
  | ShadowColor string | ShadowBlur real | GlobalAlpha real

text \<open>
  What the scripts read from and write to outside the scene objects: the shared
  \<^verbatim>\<open>appState\<close> (pointer position, mobile and reduced-motion flags), the device pixel ratio,
  the frame-callback queue of the browser (\<open>pending\<close> lists the handles requested and neither
  run nor cancelled; handles are positive), the results that successive calls of
  \<^verbatim>\<open>Math.random()\<close> return (\<open>rand\<close>, read at position \<open>randPos\<close>), the wall clock
  \<^verbatim>\<open>Date.now()\<close>, and the style elements appended to \<^verbatim>\<open>document.head\<close>. The queue holds
  the callbacks of the one scene under consideration.
\<close>

record env =
  mouse_x :: real
  mouse_y :: real
  isMobile :: bool
  isReducedMotion :: bool
  devicePixelRatio :: real
  nextHandle :: nat
  pending :: "nat list"
  rand :: "nat \<Rightarrow> real"
  randPos :: nat
  now :: real
  headStyles :: "string list"

definition requestAnimationFrame :: "env \<Rightarrow> nat \<times> env" where
  "requestAnimationFrame e =
     (nextHandle e, e\<lparr>nextHandle := Suc (nextHandle e), pending := pending e @ [nextHandle e]\<rparr>)"

definition cancelAnimationFrame :: "nat \<Rightarrow> env \<Rightarrow> env" where
  "cancelAnimationFrame h e = e\<lparr>pending := removeAll h (pending e)\<rparr>"

definition random :: "env \<Rightarrow> real \<times> env" where
  "random e = (rand e (randPos e), e\<lparr>randPos := Suc (randPos e)\<rparr>)"

section \<open>Hero scene: particles\<close>

text \<open>
  A connection \<^verbatim>\<open>{particle: other, opacity: ...}\<close> holds a reference to another element of the
  particle array; the reference is modelled as that element's index.
\<close>

record connection =
  c_particle :: nat
  c_opacity :: real

record particle =
  px :: real
  py :: real
  pz :: real
  psize :: real
  pspeed :: real
  pangle :: real
  popacity :: real
  pulsePhase :: real
  pconnections :: "connection list"

text \<open>Lines 452 to 462 of \<^verbatim>\<open>HeroScene.update\<close>: distance to the pointer and repulsion.\<close>

definition mouseDistance :: "real \<Rightarrow> real \<Rightarrow> particle \<Rightarrow> real" where
  "mouseDistance mouseX mouseY p = sqrt ((mouseX - px p)\<^sup>2 + (mouseY - py p)\<^sup>2)"

definition mouseForce :: "real \<Rightarrow> real" where
  "mouseForce d = (100 - d) / 100"

definition repel :: "real \<Rightarrow> real \<Rightarrow> particle \<Rightarrow> particle" where
  "repel mouseX mouseY p =
     (let d = mouseDistance mouseX mouseY p in
      if d < 100 then
        (let a = atan2 (py p - mouseY) (px p - mouseX);
             p1 = p\<lparr>px := px p + cos a * mouseForce d * 2\<rparr>
         in p1\<lparr>py := py p1 + sin a * mouseForce d * 2\<rparr>)
      else p)"

text \<open>Lines 464 to 466: integration of the position, then advance of the pulse phase.\<close>

definition advance :: "particle \<Rightarrow> particle" where
  "advance p =
     (let p1 = p\<lparr>px := px p + cos (pangle p) * pspeed p\<rparr>
      in p1\<lparr>py := py p1 + sin (pangle p1) * pspeed p1\<rparr>)"

definition pulseStep :: "particle \<Rightarrow> particle" where
  "pulseStep p = p\<lparr>pulsePhase := pulsePhase p + 0.05\<rparr>"

text \<open>Lines 468 and 469: the heading is mirrored, one axis after the other.\<close>

definition reflect :: "real \<Rightarrow> real \<Rightarrow> particle \<Rightarrow> particle" where
  "reflect w h p =
     (let p1 = (if px p < 0 \<or> px p > w then p\<lparr>pangle := pi - pangle p\<rparr> else p)
      in if py p1 < 0 \<or> py p1 > h then p1\<lparr>pangle := - pangle p1\<rparr> else p1)"

text \<open>Lines 471 and 472: \<^verbatim>\<open>Math.max(0, Math.min(bound, v))\<close>.\<close>

definition clampPos :: "real \<Rightarrow> real \<Rightarrow> particle \<Rightarrow> particle" where
  "clampPos w h p =
     (let p1 = p\<lparr>px := max 0 (min w (px p))\<rparr>
      in p1\<lparr>py := max 0 (min h (py p1))\<rparr>)"

definition moveParticle :: "rect \<Rightarrow> real \<Rightarrow> real \<Rightarrow> particle \<Rightarrow> particle" where
  "moveParticle r mouseX mouseY p =
     clampPos (r_width r) (r_height r)
       (reflect (r_width r) (r_height r) (pulseStep (advance (repel mouseX mouseY p))))"

text \<open>
  Lines 475 to 489: the connections of particle \<open>i\<close>, computed against the particles of
  higher index as the array holds them at that moment.
\<close>

definition distance :: "particle \<Rightarrow> particle \<Rightarrow> real" where
  "distance p other = sqrt ((px p - px other)\<^sup>2 + (py p - py other)\<^sup>2)"

fun connect :: "particle \<Rightarrow> particle list \<Rightarrow> nat \<Rightarrow> nat \<Rightarrow> connection list" where
  "connect p ps j 0 = []"
| "connect p ps j (Suc n) =
     (if distance p (ps ! j) < 120
      then \<lparr>c_particle = j, c_opacity = (120 - distance p (ps ! j)) / 120\<rparr> # connect p ps (Suc j) n
      else connect p ps (Suc j) n)"

text \<open>
  One call of the \<^verbatim>\<open>forEach\<close> callback, for index \<open>i < length ps\<close>; the inner loop runs
  over \<open>j = i + 1, \<dots>, length ps - 1\<close>, entries that the callback for \<open>i\<close> does not write.
\<close>

definition particleStep :: "rect \<Rightarrow> real \<Rightarrow> real \<Rightarrow> nat \<Rightarrow> particle list \<Rightarrow> particle list" where
  "particleStep r mouseX mouseY i ps =
     (let p = moveParticle r mouseX mouseY (ps ! i)
      in ps[i := p\<lparr>pconnections := connect p ps (Suc i) (length ps - Suc i)\<rparr>])"

definition updateParticles :: "rect \<Rightarrow> real \<Rightarrow> real \<Rightarrow> particle list \<Rightarrow> particle list" where
  "updateParticles r mouseX mouseY ps = fold (particleStep r mouseX mouseY) [0..<length ps] ps"

text \<open>The copy in \<^verbatim>\<open>src/app.js\<close> (lines 440 to 449) has neither pointer nor pulse phase.\<close>

definition moveParticle_app :: "real \<Rightarrow> real \<Rightarrow> particle \<Rightarrow> particle" where
  "moveParticle_app w h p = clampPos w h (reflect w h (advance p))"

record shape =
  s_x :: real
  s_y :: real
  s_size :: real
  rotation :: real
  rotationSpeed :: real
  s_type :: nat
  pulse :: real
  s_opacity :: real

definition turnShape :: "shape \<Rightarrow> shape" where
  "turnShape sh =
     (let sh1 = sh\<lparr>rotation := rotation sh + rotationSpeed sh\<rparr>
      in sh1\<lparr>pulse := pulse sh1 + 0.03\<rparr>)"

definition turnShape_app :: "shape \<Rightarrow> shape" where
  "turnShape_app sh = sh\<lparr>rotation := rotation sh + rotationSpeed sh\<rparr>"

section \<open>Scene objects\<close>

text \<open>
  The fields of \<^verbatim>\<open>Scene3D\<close>; a subclass is a record extension. \<open>None\<close> stands for
  \<^verbatim>\<open>null\<close>, and in a subclass field for \<^verbatim>\<open>undefined\<close>: the value the field has while the
  base constructor runs, before the subclass constructor assigns it. The base class of
  \<^verbatim>\<open>src/app.js\<close> has no \<open>time\<close> and no \<open>options\<close>; its \<^verbatim>\<open>CanvasScene\<close> adds a field
  \<open>time\<close> of its own, for which the same record field is used.
\<close>

record scene3d =
  canvas :: "canvas option"
  ctx :: "cmd list option"
  isRunning :: bool
  animationId :: "nat option"
  time :: real
  opt_particleCount :: nat
  opt_type :: string

record heroScene = scene3d +
  particles :: "particle list option"
  shapes :: "shape list option"
  connections :: "connection list"

text \<open>
  An operation takes the object and the environment and returns both, or the exception it
  throws. The state an uncaught exception leaves behind is not followed.
\<close>

type_synonym 'a state = "'a scene3d_scheme \<times> env"
type_synonym 'a action = "'a state \<Rightarrow> error + 'a state"

text \<open>\<^verbatim>\<open>HeroScene.update\<close>, lines 443 to 497 of the enhanced copy.\<close>

definition HeroScene_update :: "'a heroScene_scheme \<times> env \<Rightarrow> error + 'a heroScene_scheme \<times> env" where
  "HeroScene_update = (\<lambda>(s, e).
     case canvas s of
       None \<Rightarrow> Inr (s, e)
     | Some c \<Rightarrow>
        (let r = boundingRect c;
             mouseX = mouse_x e - r_left r;
             mouseY = mouse_y e - r_top r
         in case particles s of
              None \<Rightarrow> Inl TypeError
            | Some ps \<Rightarrow>
               (case shapes s of
                  None \<Rightarrow> Inl TypeError
                | Some shs \<Rightarrow>
                    Inr (s\<lparr>particles := Some (updateParticles r mouseX mouseY ps),
                           shapes := Some (map turnShape shs)\<rparr>, e))))"

text \<open>\<^verbatim>\<open>HeroScene.update\<close>, lines 433 to 455 of \<^verbatim>\<open>src/app.js\<close>.\<close>

definition HeroScene_update_app :: "'a heroScene_scheme \<times> env \<Rightarrow> error + 'a heroScene_scheme \<times> env" where
  "HeroScene_update_app = (\<lambda>(s, e).
     case canvas s of
       None \<Rightarrow> Inr (s, e)
     | Some c \<Rightarrow>
        (let width = real (clientWidth c);
             height = real (clientHeight c)
         in case particles s of
              None \<Rightarrow> Inl TypeError
            | Some ps \<Rightarrow>
               (case shapes s of
                  None \<Rightarrow> Inl TypeError
                | Some shs \<Rightarrow>
                    Inr (s\<lparr>particles := Some (map (moveParticle_app width height) ps),
                           shapes := Some (map turnShape_app shs)\<rparr>, e))))"

section \<open>Frame scheduler: \<^verbatim>\<open>Scene3D\<close>\<close>

definition bindE :: "error + 'a \<Rightarrow> ('a \<Rightarrow> error + 'b) \<Rightarrow> error + 'b" where
  "bindE m f = (case m of Inl err \<Rightarrow> Inl err | Inr v \<Rightarrow> f v)"

text \<open>
  \<^verbatim>\<open>animate\<close> calls \<^verbatim>\<open>this.update()\<close> and \<^verbatim>\<open>this.render()\<close>, which a subclass overrides: the
  two are parameters here. The enhanced copy ends with \<^verbatim>\<open>performanceMonitor.update()\<close>, which
  writes only the global monitor (frame counter, quality level); no scene reads it, and it is
  left out.
\<close>

definition animate :: "'a action \<Rightarrow> 'a action \<Rightarrow> 'a action" where
  "animate update render = (\<lambda>(s, e).
     if \<not> isRunning s then Inr (s, e)
     else
       (let (h, e1) = requestAnimationFrame e;
            s1 = s\<lparr>animationId := Some h\<rparr>;
            s2 = s1\<lparr>time := time s1 + 0.016\<rparr>
        in bindE (update (s2, e1)) render))"

definition animate_app :: "'a action \<Rightarrow> 'a action \<Rightarrow> 'a action" where
  "animate_app update render = (\<lambda>(s, e).
     if \<not> isRunning s then Inr (s, e)
     else
       (let (h, e1) = requestAnimationFrame e;
            s1 = s\<lparr>animationId := Some h\<rparr>
        in bindE (update (s1, e1)) render))"

definition start :: "'a action \<Rightarrow> 'a action \<Rightarrow> 'a action" where
  "start update render = (\<lambda>(s, e). animate update render (s\<lparr>isRunning := True\<rparr>, e))"

definition start_app :: "'a action \<Rightarrow> 'a action \<Rightarrow> 'a action" where
  "start_app update render = (\<lambda>(s, e). animate_app update render (s\<lparr>isRunning := True\<rparr>, e))"

text \<open>
  \<^verbatim>\<open>stop\<close> is the same in both copies. \<^verbatim>\<open>if (this.animationId)\<close> holds for a handle other
  than \<^verbatim>\<open>null\<close> and 0.
\<close>

definition stop :: "'a state \<Rightarrow> 'a state" where
  "stop = (\<lambda>(s, e).
     (let s1 = s\<lparr>isRunning := False\<rparr>
      in case animationId s1 of
           None \<Rightarrow> (s1, e)
         | Some h \<Rightarrow> if h \<noteq> 0 then (s1, cancelAnimationFrame h e) else (s1, e)))"

definition dispose :: "'a state \<Rightarrow> 'a state" where
  "dispose = stop"

text \<open>
  The browser's side of \<^verbatim>\<open>requestAnimationFrame\<close>: at a display refresh it takes the handles
  pending at that moment and, one after the other, runs the callback of each that is still
  pending, here always the bound \<^verbatim>\<open>animate\<close> of the scene (\<open>anim\<close>). Callbacks requested
  meanwhile wait for the next refresh.
\<close>

definition fire :: "'a action \<Rightarrow> nat \<Rightarrow> 'a action" where
  "fire anim h = (\<lambda>(s, e).
     if h \<in> set (pending e) then anim (s, e\<lparr>pending := removeAll h (pending e)\<rparr>)
     else Inr (s, e))"

fun fireAll :: "'a action \<Rightarrow> nat list \<Rightarrow> 'a action" where
  "fireAll anim [] st = Inr st"
| "fireAll anim (h # hs) st = bindE (fire anim h st) (fireAll anim hs)"

definition refresh :: "'a action \<Rightarrow> 'a action" where
  "refresh anim = (\<lambda>(s, e). fireAll anim (pending e) (s, e))"

fun frames :: "'a action \<Rightarrow> nat \<Rightarrow> 'a action" where
  "frames anim 0 st = Inr st"
| "frames anim (Suc n) st = bindE (refresh anim st) (frames anim n)"

text \<open>\<^verbatim>\<open>Scene3D.update\<close> is empty.\<close>

definition Scene3D_update :: "'a action" where
  "Scene3D_update = Inr"

definition teal :: string where
  "teal = ''#32b8c6''"

definition tealHalf :: string where
  "tealHalf = ''rgba(50, 184, 198, 0.5)''"

text \<open>
  \<^verbatim>\<open>renderDefault\<close>, the calls it makes on the context for a layout box \<open>r\<close> and a rotation
  \<open>t\<close>: \<^verbatim>\<open>this.time\<close> in the enhanced copy, \<^verbatim>\<open>Date.now() * 0.001\<close> in \<^verbatim>\<open>src/app.js\<close>.
\<close>

definition renderDefault :: "rect \<Rightarrow> real \<Rightarrow> cmd list" where
  "renderDefault r t =
     (let centerX = r_width r / 2; centerY = r_height r / 2; sz = 30
      in [Save, Translate centerX centerY, Rotate t,
          StrokeStyle teal, LineWidth 2, ShadowColor teal, ShadowBlur 10,
          StrokeRect (- sz) (- sz) (sz * 2) (sz * 2),
          Rotate (- t * 2), StrokeStyle tealHalf,
          StrokeRect (- sz * 0.7) (- sz * 0.7) (sz * 1.4) (sz * 1.4),
          Restore])"

definition Scene3D_render :: "'a action" where
  "Scene3D_render = (\<lambda>(s, e).
     case ctx s of
       None \<Rightarrow> Inr (s, e)
     | Some g \<Rightarrow>
        (case canvas s of
           None \<Rightarrow> Inl TypeError
         | Some c \<Rightarrow>
            (let r = boundingRect c
             in Inr (s\<lparr>ctx := Some (g @ [ClearRect 0 0 (r_width r) (r_height r)]
                                      @ renderDefault r (time s))\<rparr>, e))))"

definition Scene3D_render_app :: "'a action" where
  "Scene3D_render_app = (\<lambda>(s, e).
     case ctx s of
       None \<Rightarrow> Inr (s, e)
     | Some g \<Rightarrow>
        (case canvas s of
           None \<Rightarrow> Inl TypeError
         | Some c \<Rightarrow>
            (let r = boundingRect c
             in Inr (s\<lparr>ctx := Some (g @ [ClearRect 0 0 (r_width r) (r_height r)]
                                      @ renderDefault r (now e * 0.001))\<rparr>, e))))"

text \<open>\<^verbatim>\<open>setupCanvas\<close>, the same in both copies; \<^verbatim>\<open>window.devicePixelRatio || 1\<close>.\<close>

definition setupCanvas :: "'a action" where
  "setupCanvas = (\<lambda>(s, e).
     case canvas s of
       None \<Rightarrow> Inl TypeError
     | Some c \<Rightarrow>
        (let r = boundingRect c;
             dpr = (if devicePixelRatio e = 0 then 1 else devicePixelRatio e);
             c1 = c\<lparr>bufWidth := r_width r * dpr\<rparr>;
             c2 = c1\<lparr>bufHeight := r_height r * dpr\<rparr>
         in case ctx s of
              None \<Rightarrow> Inl TypeError
            | Some g \<Rightarrow>
               (let c3 = c2\<lparr>styleWidth := r_width r\<rparr>;
                    c4 = c3\<lparr>styleHeight := r_height r\<rparr>
                in Inr (s\<lparr>canvas := Some c4, ctx := Some (g @ [Scale dpr dpr])\<rparr>, e))))"

text \<open>\<^verbatim>\<open>init\<close>: a fresh context has no calls on it yet.\<close>

definition init :: "'a action \<Rightarrow> 'a action \<Rightarrow> 'a action" where
  "init update render = (\<lambda>(s, e).
     case canvas s of
       None \<Rightarrow> Inr (s, e)
     | Some c \<Rightarrow>
        (let s1 = s\<lparr>ctx := (if context2d c then Some [] else None)\<rparr>
         in case ctx s1 of
              None \<Rightarrow> Inr (s1, e)
            | Some g \<Rightarrow> bindE (setupCanvas (s1, e)) (start update render)))"

definition init_app :: "'a action \<Rightarrow> 'a action \<Rightarrow> 'a action" where
  "init_app update render = (\<lambda>(s, e).
     case canvas s of
       None \<Rightarrow> Inr (s, e)
     | Some c \<Rightarrow>
        (let s1 = s\<lparr>ctx := (if context2d c then Some [] else None)\<rparr>
         in case ctx s1 of
              None \<Rightarrow> Inr (s1, e)
            | Some g \<Rightarrow> bindE (setupCanvas (s1, e)) (start_app update render)))"

text \<open>
  The constructor of \<^verbatim>\<open>Scene3D\<close>. \<open>this0\<close> is the object as allocated, its subclass fields
  still undefined; \<open>update\<close> and \<open>render\<close> are the methods of the class being constructed.
  An option the caller does not pass is \<open>None\<close>; \<^verbatim>\<open>...options\<close> lets a passed one win.
\<close>

record options =
  o_particleCount :: "nat option"
  o_type :: "string option"

definition Scene3D_new ::
  "'a action \<Rightarrow> 'a action \<Rightarrow> 'a scene3d_scheme \<Rightarrow> canvas option \<Rightarrow> options \<Rightarrow> env
     \<Rightarrow> error + 'a state" where
  "Scene3D_new update render this0 canvasArg opts e =
     (let s = this0\<lparr>canvas := canvasArg, ctx := None, isRunning := False, animationId := None,
                    time := 0,
                    opt_particleCount := (case o_particleCount opts of None \<Rightarrow> 50 | Some n \<Rightarrow> n),
                    opt_type := (case o_type opts of None \<Rightarrow> ''default'' | Some t \<Rightarrow> t)\<rparr>
      in case canvas s of
           None \<Rightarrow> Inr (s, e)
         | Some c \<Rightarrow> init update render (s, e))"

definition Scene3D_new_app ::
  "'a action \<Rightarrow> 'a action \<Rightarrow> 'a scene3d_scheme \<Rightarrow> canvas option \<Rightarrow> env \<Rightarrow> error + 'a state" where
  "Scene3D_new_app update render this0 canvasArg e =
     (let s = this0\<lparr>canvas := canvasArg, ctx := None, isRunning := False, animationId := None\<rparr>
      in case canvas s of
           None \<Rightarrow> Inr (s, e)
         | Some c \<Rightarrow> init_app update render (s, e))"

section \<open>Hero scene: rendering and construction\<close>

text \<open>
  \<^verbatim>\<open>HeroScene.render\<close> of the enhanced copy, lines 499 to 580. The endpoint of a connection
  is read through its reference, here \<open>ps ! c_particle cn\<close>.
\<close>

definition drawConnection :: "particle list \<Rightarrow> particle \<Rightarrow> connection \<Rightarrow> cmd list" where
  "drawConnection ps p cn =
     [Save, GlobalAlpha (c_opacity cn * 0.3), StrokeStyle teal, LineWidth 1, BeginPath,
      MoveTo (px p) (py p),
      LineTo (px (ps ! c_particle cn)) (py (ps ! c_particle cn)),
      Stroke, Restore]"

definition drawParticle :: "particle \<Rightarrow> cmd list" where
  "drawParticle p =
     (let pl = sin (pulsePhase p) * 0.3 + 0.7
      in [Save, GlobalAlpha (popacity p * pl), FillStyle teal, ShadowColor teal, ShadowBlur 8,
          BeginPath, Arc (px p) (py p) (psize p * pl) 0 (pi * 2), Fill, Restore])"

definition shapePath :: "nat \<Rightarrow> real \<Rightarrow> cmd list" where
  "shapePath ty sz =
     (if ty = 0 then [StrokeRect (- sz / 2) (- sz / 2) sz sz]
      else if ty = 1 then [BeginPath, Arc 0 0 (sz / 2) 0 (pi * 2), Stroke]
      else if ty = 2 then
        [BeginPath, MoveTo 0 (- sz / 2), LineTo (- sz / 2) (sz / 2),
         LineTo (sz / 2) (sz / 2), ClosePath, Stroke]
      else if ty = 3 then
        [BeginPath, MoveTo 0 (- sz / 2), LineTo (sz / 2) 0, LineTo 0 (sz / 2),
         LineTo (- sz / 2) 0, ClosePath, Stroke]
      else [])"

definition drawShape :: "shape \<Rightarrow> cmd list" where
  "drawShape sh =
     (let pl = sin (pulse sh) * 0.2 + 0.8
      in [Save, Translate (s_x sh) (s_y sh), Rotate (rotation sh),
          GlobalAlpha (s_opacity sh * pl), StrokeStyle teal, LineWidth 2, ShadowColor teal,
          ShadowBlur 15]
         @ shapePath (s_type sh) (s_size sh * pl) @ [Restore])"

definition HeroScene_render :: "'a heroScene_scheme \<times> env \<Rightarrow> error + 'a heroScene_scheme \<times> env" where
  "HeroScene_render = (\<lambda>(s, e).
     case ctx s of
       None \<Rightarrow> Inr (s, e)
     | Some g \<Rightarrow>
        (case canvas s of
           None \<Rightarrow> Inl TypeError
         | Some c \<Rightarrow>
            (let r = boundingRect c
             in case particles s of
                  None \<Rightarrow> Inl TypeError
                | Some ps \<Rightarrow>
                   (case shapes s of
                      None \<Rightarrow> Inl TypeError
                    | Some shs \<Rightarrow>
                       Inr (s\<lparr>ctx := Some (g @ [ClearRect 0 0 (r_width r) (r_height r)]
                              @ concat (map (\<lambda>p. concat (map (drawConnection ps p) (pconnections p))) ps)
                              @ concat (map drawParticle ps)
                              @ concat (map drawShape shs))\<rparr>, e)))))"

text \<open>\<^verbatim>\<open>HeroScene.render\<close> of \<^verbatim>\<open>src/app.js\<close>, lines 457 to 513.\<close>

definition drawParticle_app :: "particle \<Rightarrow> cmd list" where
  "drawParticle_app p =
     [Save, GlobalAlpha (popacity p), FillStyle teal, ShadowColor teal, ShadowBlur 5,
      BeginPath, Arc (px p) (py p) (psize p) 0 (pi * 2), Fill, Restore]"

definition shapePath_app :: "nat \<Rightarrow> real \<Rightarrow> cmd list" where
  "shapePath_app ty sz =
     (if ty = 0 then [StrokeRect (- sz / 2) (- sz / 2) sz sz]
      else if ty = 1 then [BeginPath, Arc 0 0 (sz / 2) 0 (pi * 2), Stroke]
      else if ty = 2 then
        [BeginPath, MoveTo 0 (- sz / 2), LineTo (- sz / 2) (sz / 2),
         LineTo (sz / 2) (sz / 2), ClosePath, Stroke]
      else [])"

definition drawShape_app :: "shape \<Rightarrow> cmd list" where
  "drawShape_app sh =
     [Save, Translate (s_x sh) (s_y sh), Rotate (rotation sh), StrokeStyle teal, LineWidth 2,
      ShadowColor teal, ShadowBlur 10, GlobalAlpha 0.7]
     @ shapePath_app (s_type sh) (s_size sh) @ [Restore]"

definition HeroScene_render_app :: "'a heroScene_scheme \<times> env \<Rightarrow> error + 'a heroScene_scheme \<times> env" where
  "HeroScene_render_app = (\<lambda>(s, e).
     case ctx s of
       None \<Rightarrow> Inr (s, e)
     | Some g \<Rightarrow>
        (case canvas s of
           None \<Rightarrow> Inl TypeError
         | Some c \<Rightarrow>
            (let width = real (clientWidth c); height = real (clientHeight c)
             in case particles s of
                  None \<Rightarrow> Inl TypeError
                | Some ps \<Rightarrow>
                   (case shapes s of
                      None \<Rightarrow> Inl TypeError
                    | Some shs \<Rightarrow>
                       Inr (s\<lparr>ctx := Some (g @ [ClearRect 0 0 width height]
                              @ concat (map drawParticle_app ps)
                              @ concat (map drawShape_app shs))\<rparr>, e)))))"

text \<open>
  \<^verbatim>\<open>initializeElements\<close> of the enhanced copy: each object literal draws its random numbers in
  the order of its properties.
\<close>

fun makeParticles :: "rect \<Rightarrow> nat \<Rightarrow> env \<Rightarrow> particle list \<times> env" where
  "makeParticles r 0 e = ([], e)"
| "makeParticles r (Suc n) e =
     (let (u1, e1) = random e; (u2, e2) = random e1; (u3, e3) = random e2; (u4, e4) = random e3;
          (u5, e5) = random e4; (u6, e6) = random e5; (u7, e7) = random e6; (u8, e8) = random e7;
          p = \<lparr>px = u1 * r_width r, py = u2 * r_height r, pz = u3 * 100, psize = u4 * 3 + 1,
               pspeed = u5 * 0.5 + 0.1, pangle = u6 * pi * 2, popacity = u7 * 0.5 + 0.3,
               pulsePhase = u8 * pi * 2, pconnections = []\<rparr>;
          (ps, e9) = makeParticles r n e8
      in (p # ps, e9))"

fun makeShapes :: "rect \<Rightarrow> nat \<Rightarrow> env \<Rightarrow> shape list \<times> env" where
  "makeShapes r 0 e = ([], e)"
| "makeShapes r (Suc n) e =
     (let (u1, e1) = random e; (u2, e2) = random e1; (u3, e3) = random e2; (u4, e4) = random e3;
          (u5, e5) = random e4; (u6, e6) = random e5; (u7, e7) = random e6; (u8, e8) = random e7;
          sh = \<lparr>s_x = u1 * r_width r, s_y = u2 * r_height r, s_size = u3 * 60 + 30,
                rotation = u4 * pi * 2, rotationSpeed = (u5 - 0.5) * 0.02,
                s_type = nat \<lfloor>u6 * 4\<rfloor>, pulse = u7 * pi * 2, s_opacity = u8 * 0.4 + 0.3\<rparr>;
          (shs, e9) = makeShapes r n e8
      in (sh # shs, e9))"

text \<open>
  \<^verbatim>\<open>this.particles.push\<close> on an undefined array throws; the constructor assigns both arrays
  before it calls \<^verbatim>\<open>initializeElements\<close>.
\<close>

definition initializeElements :: "'a heroScene_scheme \<times> env \<Rightarrow> error + 'a heroScene_scheme \<times> env" where
  "initializeElements = (\<lambda>(s, e).
     (let r = (case canvas s of
                 None \<Rightarrow> \<lparr>r_left = 0, r_top = 0, r_width = 800, r_height = 600\<rparr>
               | Some c \<Rightarrow> boundingRect c)
      in case particles s of
           None \<Rightarrow> (if opt_particleCount s = 0
                     then (case shapes s of None \<Rightarrow> Inl TypeError
                           | Some shs \<Rightarrow> (let (new, e1) = makeShapes r 8 e
                                            in Inr (s\<lparr>shapes := Some (shs @ new)\<rparr>, e1)))
                     else Inl TypeError)
         | Some ps \<Rightarrow>
            (let (newp, e1) = makeParticles r (opt_particleCount s) e
             in case shapes s of
                  None \<Rightarrow> Inl TypeError
                | Some shs \<Rightarrow>
                   (let (news, e2) = makeShapes r 8 e1
                    in Inr (s\<lparr>particles := Some (ps @ newp), shapes := Some (shs @ news)\<rparr>, e2)))))"

text \<open>The object as allocated for \<^verbatim>\<open>new HeroScene\<close>: no array assigned yet.\<close>

definition heroAlloc :: heroScene where
  "heroAlloc =
     \<lparr>canvas = None, ctx = None, isRunning = False, animationId = None, time = 0,
      opt_particleCount = 0, opt_type = [], particles = None, shapes = None, connections = []\<rparr>"

definition HeroScene_new :: "canvas option \<Rightarrow> env \<Rightarrow> error + heroScene \<times> env" where
  "HeroScene_new canvasArg e =
     bindE (Scene3D_new HeroScene_update HeroScene_render heroAlloc canvasArg
              \<lparr>o_particleCount = Some (if isMobile e then 80 else 150), o_type = None\<rparr> e)
       (\<lambda>(s, e1). initializeElements
                     (s\<lparr>particles := Some [], shapes := Some [], connections := []\<rparr>, e1))"

text \<open>
  \<^verbatim>\<open>src/app.js\<close>: \<^verbatim>\<open>this.canvas?.clientWidth || 800\<close> replaces a width of 0 as well. The
  fields its objects lack (\<open>pz\<close>, \<open>pulsePhase\<close>, \<open>pulse\<close>, \<open>s_opacity\<close>) are 0 and are not
  touched by the functions of that copy.
\<close>

fun makeParticles_app :: "real \<Rightarrow> real \<Rightarrow> nat \<Rightarrow> env \<Rightarrow> particle list \<times> env" where
  "makeParticles_app w h 0 e = ([], e)"
| "makeParticles_app w h (Suc n) e =
     (let (u1, e1) = random e; (u2, e2) = random e1; (u3, e3) = random e2; (u4, e4) = random e3;
          (u5, e5) = random e4; (u6, e6) = random e5;
          p = \<lparr>px = u1 * w, py = u2 * h, pz = 0, psize = u3 * 3 + 1,
               pspeed = u4 * 0.5 + 0.1, pangle = u5 * pi * 2, popacity = u6 * 0.5 + 0.2,
               pulsePhase = 0, pconnections = []\<rparr>;
          (ps, e7) = makeParticles_app w h n e6
      in (p # ps, e7))"

fun makeShapes_app :: "real \<Rightarrow> real \<Rightarrow> nat \<Rightarrow> env \<Rightarrow> shape list \<times> env" where
  "makeShapes_app w h 0 e = ([], e)"
| "makeShapes_app w h (Suc n) e =
     (let (u1, e1) = random e; (u2, e2) = random e1; (u3, e3) = random e2; (u4, e4) = random e3;
          (u5, e5) = random e4; (u6, e6) = random e5;
          sh = \<lparr>s_x = u1 * w, s_y = u2 * h, s_size = u3 * 40 + 20,
                rotation = u4 * pi * 2, rotationSpeed = (u5 - 0.5) * 0.02,
                s_type = nat \<lfloor>u6 * 3\<rfloor>, pulse = 0, s_opacity = 0\<rparr>;
          (shs, e7) = makeShapes_app w h n e6
      in (sh # shs, e7))"

definition initializeElements_app :: "'a heroScene_scheme \<times> env \<Rightarrow> error + 'a heroScene_scheme \<times> env" where
  "initializeElements_app = (\<lambda>(s, e).
     (let w = (case canvas s of None \<Rightarrow> 800
               | Some c \<Rightarrow> if clientWidth c = 0 then 800 else real (clientWidth c));
          h = (case canvas s of None \<Rightarrow> 600
               | Some c \<Rightarrow> if clientHeight c = 0 then 600 else real (clientHeight c));
          particleCount = (if isMobile e then 50 else 100)
      in case particles s of
           None \<Rightarrow> Inl TypeError
         | Some ps \<Rightarrow>
            (let (newp, e1) = makeParticles_app w h particleCount e
             in case shapes s of
                  None \<Rightarrow> Inl TypeError
                | Some shs \<Rightarrow>
                   (let (news, e2) = makeShapes_app w h 5 e1
                    in Inr (s\<lparr>particles := Some (ps @ newp), shapes := Some (shs @ news)\<rparr>, e2)))))"

definition HeroScene_new_app :: "canvas option \<Rightarrow> env \<Rightarrow> error + heroScene \<times> env" where
  "HeroScene_new_app canvasArg e =
     bindE (Scene3D_new_app HeroScene_update_app HeroScene_render_app heroAlloc canvasArg e)
       (\<lambda>(s, e1). initializeElements_app (s\<lparr>particles := Some [], shapes := Some []\<rparr>, e1))"

section \<open>Canvas scene: patterns\<close>

record element =
  e_x :: real
  e_y :: real
  e_size :: real
  e_angle :: real
  e_speed :: real
  e_opacity :: real
  e_type :: nat

text \<open>
  \<open>elements\<close> is a field of the enhanced copy, whose pattern kind is \<open>opt_type\<close>; \<open>ctype\<close>
  is the field \<^verbatim>\<open>this.type\<close> of \<^verbatim>\<open>src/app.js\<close>.
\<close>

record canvasScene = scene3d +
  elements :: "element list option"
  ctype :: "string option"

text \<open>The remainder operator \<^verbatim>\<open>%\<close>: the quotient is truncated towards zero.\<close>

definition fmod :: "real \<Rightarrow> real \<Rightarrow> real" where
  "fmod a b = a - b * of_int (if 0 \<le> a / b then \<lfloor>a / b\<rfloor> else \<lceil>a / b\<rceil>)"

text \<open>\<^verbatim>\<open>renderHologram\<close>, lines 639 to 673.\<close>

definition hologramSquare :: "real \<Rightarrow> nat \<Rightarrow> cmd list" where
  "hologramSquare t i =
     (let sz = 40 + real i * 20
      in [Save, Rotate (t + real i * pi / 3), GlobalAlpha (0.8 - real i * 0.2),
          StrokeRect (- sz) (- sz) (sz * 2) (sz * 2),
          StrokeRect (- sz * 0.6) (- sz * 0.6) (sz * 1.2) (sz * 1.2),
          Restore])"

definition scanLine :: "real \<Rightarrow> nat \<Rightarrow> cmd list" where
  "scanLine t i =
     (let y = - 60 + real i * 15 + fmod (t * 20) 120
      in [BeginPath, MoveTo (- 60) y, LineTo 60 y, Stroke])"

definition renderHologram :: "real \<Rightarrow> cmd list" where
  "renderHologram t =
     [StrokeStyle teal, LineWidth 2, ShadowColor teal, ShadowBlur 15]
     @ concat (map (hologramSquare t) [0..<3])
     @ [Save, GlobalAlpha 0.3, StrokeStyle teal, LineWidth 1]
     @ concat (map (scanLine t) [0..<8])
     @ [Restore]"

text \<open>\<^verbatim>\<open>renderNetwork\<close>, lines 675 to 730.\<close>

definition nodePosition :: "nat \<Rightarrow> real \<Rightarrow> real \<Rightarrow> nat \<Rightarrow> real \<times> real" where
  "nodePosition nodes radius turn i =
     (let a = real i / real nodes * pi * 2 + turn
      in (cos a * radius, sin a * radius))"

definition drawNode :: "real \<Rightarrow> nat \<Rightarrow> cmd list" where
  "drawNode t i =
     (let (x, y) = nodePosition 12 80 (t * 0.5) i;
          pl = sin (t * 2 + real i) * 0.5 + 1
      in [Save, GlobalAlpha 0.8, BeginPath, Arc x y (4 * pl) 0 (pi * 2), Fill, Restore])"

definition drawLink :: "real \<times> real \<Rightarrow> real \<times> real \<Rightarrow> cmd list" where
  "drawLink pos1 pos2 = [BeginPath, MoveTo (fst pos1) (snd pos1), LineTo (fst pos2) (snd pos2), Stroke]"

definition linkNear :: "(real \<times> real) list \<Rightarrow> nat \<Rightarrow> nat \<Rightarrow> cmd list" where
  "linkNear positions i j =
     (let pos1 = positions ! i; pos2 = positions ! j
      in if i \<noteq> j then
           (if sqrt ((fst pos1 - fst pos2)\<^sup>2 + (snd pos1 - snd pos2)\<^sup>2) < 80 * 1.2
            then drawLink pos1 pos2 else [])
         else [])"

definition renderNetwork :: "real \<Rightarrow> cmd list" where
  "renderNetwork t =
     (let positions = map (nodePosition 12 80 (t * 0.5)) [0..<12]
      in [StrokeStyle teal, FillStyle teal, LineWidth 1, ShadowColor teal, ShadowBlur 8]
         @ concat (map (drawNode t) [0..<12])
         @ [GlobalAlpha 0.4]
         @ concat (map (\<lambda>i. concat (map (linkNear positions i) [0..<length positions]))
                     [0..<length positions])
         @ [Save, GlobalAlpha 0.6, FillStyle teal, ShadowBlur 20, BeginPath,
            Arc 0 0 (8 + sin (t * 3) * 3) 0 (pi * 2), Fill, Restore])"

text \<open>
  \<^verbatim>\<open>renderParticleSystem\<close>, lines 732 to 766: the loop advances the angle of each element
  and draws it; \<open>i\<close> is the index of the first element of the list.
\<close>

fun orbit :: "real \<Rightarrow> nat \<Rightarrow> element list \<Rightarrow> element list \<times> cmd list" where
  "orbit t i [] = ([], [])"
| "orbit t i (el # els) =
     (let el1 = el\<lparr>e_angle := e_angle el + e_speed el\<rparr>;
          d = 40 + sin (t * 2 + real i) * 25;
          x = cos (e_angle el1) * d;
          y = sin (e_angle el1) * d;
          sz = e_size el1 * (0.8 + sin (t * 3 + real i) * 0.4);
          (els1, cmds) = orbit t (Suc i) els
      in (el1 # els1,
          [Save, GlobalAlpha (e_opacity el1), FillStyle teal, ShadowColor teal, ShadowBlur 10,
           BeginPath, Arc x y (sz * 0.3) 0 (pi * 2), Fill, Restore] @ cmds))"

definition energyWave :: "real \<Rightarrow> nat \<Rightarrow> cmd list" where
  "energyWave t i =
     [BeginPath, Arc 0 0 (30 + real i * 20 + fmod (t * 30) 60) 0 (pi * 2), Stroke]"

definition renderParticleSystem :: "real \<Rightarrow> element list \<Rightarrow> element list \<times> cmd list" where
  "renderParticleSystem t els =
     (let (els1, cmds) = orbit t 0 els
      in (els1,
          cmds @ [Save, GlobalAlpha 0.3, StrokeStyle teal, LineWidth 2]
          @ concat (map (energyWave t) [0..<3]) @ [Restore]))"

text \<open>\<^verbatim>\<open>renderNeuralNetwork\<close>, lines 768 to 821; a node is \<open>(x, y, activation)\<close>.\<close>

definition layers :: "nat list" where
  "layers = [6, 8, 6, 4]"

definition layerNode :: "real \<Rightarrow> nat \<Rightarrow> nat \<Rightarrow> nat \<Rightarrow> real \<times> real \<times> real" where
  "layerNode t layerIndex nodeCount i =
     (let layerSpacing = 120; nodeSpacing = 30;
          startY = - (real nodeCount - 1) * nodeSpacing / 2;
          x = - layerSpacing * (real (length layers) - 1) / 2 + real layerIndex * layerSpacing;
          y = startY + real i * nodeSpacing;
          activation = sin (t * 2 + real layerIndex + real i) * 0.5 + 0.5
      in (x, y, activation))"

definition layerNodes :: "real \<Rightarrow> nat \<Rightarrow> (real \<times> real \<times> real) list" where
  "layerNodes t layerIndex =
     map (layerNode t layerIndex (layers ! layerIndex)) [0..<layers ! layerIndex]"

definition drawNeuron :: "real \<times> real \<times> real \<Rightarrow> cmd list" where
  "drawNeuron = (\<lambda>(x, y, activation).
     [Save, GlobalAlpha (0.3 + activation * 0.7), BeginPath, Arc x y 6 0 (pi * 2), Fill, Restore])"

definition drawSynapse :: "real \<times> real \<times> real \<Rightarrow> real \<times> real \<times> real \<Rightarrow> cmd list" where
  "drawSynapse = (\<lambda>(x1, y1, a1) (x2, y2, a2).
     (let strength = (a1 + a2) / 2
      in [Save, GlobalAlpha (0.1 + strength * 0.3), BeginPath, MoveTo x1 y1, LineTo x2 y2,
          Stroke, Restore]))"

definition renderNeuralNetwork :: "real \<Rightarrow> cmd list" where
  "renderNeuralNetwork t =
     (let allNodes = map (layerNodes t) [0..<length layers]
      in [StrokeStyle teal, FillStyle teal, LineWidth 1, ShadowColor teal, ShadowBlur 5]
         @ concat (map (\<lambda>nodes. concat (map drawNeuron nodes)) allNodes)
         @ [GlobalAlpha 0.2]
         @ concat (map (\<lambda>i. concat (map (\<lambda>node1. concat (map (drawSynapse node1) (allNodes ! Suc i)))
                                        (allNodes ! i)))
                     [0..<length allNodes - 1]))"

text \<open>\<^verbatim>\<open>CanvasScene.render\<close>, lines 607 to 637. The class does not override \<^verbatim>\<open>update\<close>.\<close>

definition CanvasScene_render :: "'a canvasScene_scheme \<times> env \<Rightarrow> error + 'a canvasScene_scheme \<times> env" where
  "CanvasScene_render = (\<lambda>(s, e).
     case ctx s of
       None \<Rightarrow> Inr (s, e)
     | Some g \<Rightarrow>
        (case canvas s of
           None \<Rightarrow> Inl TypeError
         | Some c \<Rightarrow>
            (let r = boundingRect c;
                 centerX = r_width r / 2;
                 centerY = r_height r / 2;
                 g1 = g @ [ClearRect 0 0 (r_width r) (r_height r), Save, Translate centerX centerY]
             in if opt_type s = ''hologram'' then
                  Inr (s\<lparr>ctx := Some (g1 @ renderHologram (time s) @ [Restore])\<rparr>, e)
                else if opt_type s = ''network'' then
                  Inr (s\<lparr>ctx := Some (g1 @ renderNetwork (time s) @ [Restore])\<rparr>, e)
                else if opt_type s = ''particle'' then
                  (case elements s of
                     None \<Rightarrow> Inl TypeError
                   | Some els \<Rightarrow>
                      (let (els1, cmds) = renderParticleSystem (time s) els
                       in Inr (s\<lparr>ctx := Some (g1 @ cmds @ [Restore]), elements := Some els1\<rparr>, e)))
                else if opt_type s = ''neural'' then
                  Inr (s\<lparr>ctx := Some (g1 @ renderNeuralNetwork (time s) @ [Restore])\<rparr>, e)
                else
                  Inr (s\<lparr>ctx := Some (g1 @ renderDefault r (time s) @ [Restore])\<rparr>, e))))"

fun makeElements :: "nat \<Rightarrow> env \<Rightarrow> element list \<times> env" where
  "makeElements 0 e = ([], e)"
| "makeElements (Suc n) e =
     (let (u1, e1) = random e; (u2, e2) = random e1; (u3, e3) = random e2; (u4, e4) = random e3;
          (u5, e5) = random e4; (u6, e6) = random e5; (u7, e7) = random e6;
          el = \<lparr>e_x = u1 * 200 - 100, e_y = u2 * 200 - 100, e_size = u3 * 20 + 5,
                e_angle = u4 * pi * 2, e_speed = u5 * 0.02 + 0.01, e_opacity = u6 * 0.5 + 0.3,
                e_type = nat \<lfloor>u7 * 3\<rfloor>\<rparr>;
          (els, e8) = makeElements n e7
      in (el # els, e8))"

definition initElements :: "'a canvasScene_scheme \<times> env \<Rightarrow> error + 'a canvasScene_scheme \<times> env" where
  "initElements = (\<lambda>(s, e).
     (let elementCount = (if isMobile e then 15 else 25)
      in case elements s of
           None \<Rightarrow> Inl TypeError
         | Some els \<Rightarrow>
            (let (new, e1) = makeElements elementCount e
             in Inr (s\<lparr>elements := Some (els @ new)\<rparr>, e1))))"

definition canvasAlloc :: canvasScene where
  "canvasAlloc =
     \<lparr>canvas = None, ctx = None, isRunning = False, animationId = None, time = 0,
      opt_particleCount = 0, opt_type = [], elements = None, ctype = None\<rparr>"

text \<open>\<^verbatim>\<open>new CanvasScene(canvas, type)\<close>; an omitted \<open>type\<close> is \<^verbatim>\<open>'default'\<close>.\<close>

definition CanvasScene_new :: "canvas option \<Rightarrow> string option \<Rightarrow> env \<Rightarrow> error + canvasScene \<times> env" where
  "CanvasScene_new canvasArg typeArg e =
     bindE (Scene3D_new Scene3D_update CanvasScene_render canvasAlloc canvasArg
              \<lparr>o_particleCount = None,
               o_type = Some (case typeArg of None \<Rightarrow> ''default'' | Some t \<Rightarrow> t)\<rparr> e)
       (\<lambda>(s, e1). initElements (s\<lparr>elements := Some []\<rparr>, e1))"

text \<open>
  The canvas scene of \<^verbatim>\<open>src/app.js\<close>, lines 517 to 638. While the base constructor runs,
  \<^verbatim>\<open>this.time\<close> is undefined and \<^verbatim>\<open>update\<close> makes it NaN; the constructor then assigns 0,
  and nothing reads the field in between.
\<close>

definition CanvasScene_update_app :: "'a action" where
  "CanvasScene_update_app = (\<lambda>(s, e). Inr (s\<lparr>time := time s + 0.01\<rparr>, e))"

definition hologramSquare_app :: "real \<Rightarrow> nat \<Rightarrow> cmd list" where
  "hologramSquare_app t i =
     (let sz = 40 + real i * 20
      in [Save, Rotate (t + real i * pi / 3), GlobalAlpha (0.7 - real i * 0.2),
          StrokeRect (- sz) (- sz) (sz * 2) (sz * 2), Restore])"

definition renderHologram_app :: "real \<Rightarrow> cmd list" where
  "renderHologram_app t =
     [StrokeStyle teal, LineWidth 2, ShadowColor teal, ShadowBlur 15]
     @ concat (map (hologramSquare_app t) [0..<3])"

definition drawNode_app :: "real \<Rightarrow> nat \<Rightarrow> cmd list" where
  "drawNode_app t i =
     (let (x, y) = nodePosition 8 60 t i
      in [BeginPath, Arc x y 3 0 (pi * 2), Fill])"

text \<open>
  The nested iteration over node pairs in \<^verbatim>\<open>renderNetwork\<close> in \<^verbatim>\<open>src/app.js\<close> (lines 605 to 614):
  \<^verbatim>\<open>i !== j && Math.random() > 0.7\<close> draws a random number for every pair with \<open>i \<noteq> j\<close>.
\<close>

definition linkRandom :: "(real \<times> real) list \<Rightarrow> nat \<Rightarrow> nat \<Rightarrow> cmd list \<times> env \<Rightarrow> cmd list \<times> env" where
  "linkRandom positions i j = (\<lambda>(cmds, e).
     if i \<noteq> j then
       (let (u, e1) = random e
        in if 0.7 < u then (cmds @ drawLink (positions ! i) (positions ! j), e1) else (cmds, e1))
     else (cmds, e))"

definition linkRows :: "(real \<times> real) list \<Rightarrow> env \<Rightarrow> cmd list \<times> env" where
  "linkRows positions e =
     fold (\<lambda>i. fold (linkRandom positions i) [0..<length positions]) [0..<length positions] ([], e)"

definition renderNetwork_app :: "real \<Rightarrow> env \<Rightarrow> cmd list \<times> env" where
  "renderNetwork_app t e =
     (let positions = map (nodePosition 8 60 t) [0..<8];
          (links, e1) = linkRows positions e
      in ([StrokeStyle teal, FillStyle teal, LineWidth 1, ShadowColor teal, ShadowBlur 5]
          @ concat (map (drawNode_app t) [0..<8])
          @ [GlobalAlpha 0.3] @ links, e1))"

definition drawOrbiter_app :: "real \<Rightarrow> nat \<Rightarrow> cmd list" where
  "drawOrbiter_app t i =
     (let a = real i / 20 * pi * 2 + t;
          d = 30 + sin (t * 2 + real i) * 20;
          x = cos a * d;
          y = sin a * d;
          sz = 2 + sin (t * 3 + real i) * 1
      in [GlobalAlpha (0.5 + sin (t * 2 + real i) * 0.3), BeginPath, Arc x y sz 0 (pi * 2), Fill])"

definition renderParticleSystem_app :: "real \<Rightarrow> cmd list" where
  "renderParticleSystem_app t =
     [FillStyle teal, ShadowColor teal, ShadowBlur 8] @ concat (map (drawOrbiter_app t) [0..<20])"

definition CanvasScene_render_app :: "'a canvasScene_scheme \<times> env \<Rightarrow> error + 'a canvasScene_scheme \<times> env" where
  "CanvasScene_render_app = (\<lambda>(s, e).
     case ctx s of
       None \<Rightarrow> Inr (s, e)
     | Some g \<Rightarrow>
        (case canvas s of
           None \<Rightarrow> Inl TypeError
         | Some c \<Rightarrow>
            (let r = boundingRect c;
                 width = r_width r;
                 height = r_height r;
                 centerX = width / 2;
                 centerY = height / 2;
                 g1 = g @ [ClearRect 0 0 width height, Save, Translate centerX centerY]
             in if ctype s = Some ''hologram'' then
                  Inr (s\<lparr>ctx := Some (g1 @ renderHologram_app (time s) @ [Restore])\<rparr>, e)
                else if ctype s = Some ''network'' then
                  (let (cmds, e1) = renderNetwork_app (time s) e
                   in Inr (s\<lparr>ctx := Some (g1 @ cmds @ [Restore])\<rparr>, e1))
                else if ctype s = Some ''particle'' then
                  Inr (s\<lparr>ctx := Some (g1 @ renderParticleSystem_app (time s) @ [Restore])\<rparr>, e)
                else
                  Inr (s\<lparr>ctx := Some (g1 @ renderDefault r (now e * 0.001) @ [Restore])\<rparr>, e))))"

definition CanvasScene_new_app :: "canvas option \<Rightarrow> string option \<Rightarrow> env \<Rightarrow> error + canvasScene \<times> env" where
  "CanvasScene_new_app canvasArg typeArg e =
     bindE (Scene3D_new_app CanvasScene_update_app CanvasScene_render_app canvasAlloc canvasArg e)
       (\<lambda>(s, e1).
          (let s1 = s\<lparr>ctype := Some (case typeArg of None \<Rightarrow> ''default'' | Some t \<Rightarrow> t)\<rparr>
           in Inr (s1\<lparr>time := 0\<rparr>, e1)))"

section \<open>Loading screen\<close>

text \<open>
  \<^verbatim>\<open>LoadingManager\<close>, the same in both copies (lines 214 to 257 of the enhanced copy).
  \<open>loadingParticles\<close> is the element found by \<^verbatim>\<open>querySelector('.loading-particles')\<close>, given
  by the list of the particle elements appended to it, or \<open>None\<close> when there is no such
  element. A particle element is given by the seven random numbers of its style text.
\<close>

record loadingParticle =
  lp_width :: real
  lp_height :: real
  lp_alpha :: real
  lp_left :: real
  lp_top :: real
  lp_duration :: real
  lp_delay :: real

record loadingManager =
  loadingParticles :: "loadingParticle list option"
  progress :: real
  isComplete :: bool

definition utilsRandom :: "real \<Rightarrow> real \<Rightarrow> env \<Rightarrow> real \<times> env" where
  "utilsRandom lo hi e = (let (u, e1) = random e in (u * (hi - lo) + lo, e1))"

fun makeLoadingParticles :: "nat \<Rightarrow> env \<Rightarrow> loadingParticle list \<times> env" where
  "makeLoadingParticles 0 e = ([], e)"
| "makeLoadingParticles (Suc n) e =
     (let (w, e1) = utilsRandom 2 6 e; (h, e2) = utilsRandom 2 6 e1;
          (a, e3) = utilsRandom 0.3 0.8 e2; (l, e4) = utilsRandom 0 100 e3;
          (t, e5) = utilsRandom 0 100 e4; (d, e6) = utilsRandom 3 8 e5;
          (dl, e7) = utilsRandom 0 2 e6;
          p = \<lparr>lp_width = w, lp_height = h, lp_alpha = a, lp_left = l, lp_top = t,
               lp_duration = d, lp_delay = dl\<rparr>;
          (ps, e8) = makeLoadingParticles n e7
      in (p # ps, e8))"

definition initParticles :: "loadingManager \<times> env \<Rightarrow> loadingManager \<times> env" where
  "initParticles = (\<lambda>(m, e).
     if isReducedMotion e then (m, e)
     else case loadingParticles m of
            None \<Rightarrow> (m, e)
          | Some children \<Rightarrow>
             (let particleCount = (if isMobile e then 30 else 60);
                  (new, e1) = makeLoadingParticles particleCount e
              in (m\<lparr>loadingParticles := Some (children @ new)\<rparr>,
                  e1\<lparr>headStyles := headStyles e1 @ [''particleFloat'']\<rparr>)))"

definition LoadingManager_new :: "loadingParticle list option \<Rightarrow> env \<Rightarrow> loadingManager \<times> env" where
  "LoadingManager_new found e =
     initParticles (\<lparr>loadingParticles = found, progress = 0, isComplete = False\<rparr>, e)"

section \<open>Auxiliary notions and example objects\<close>

text \<open>A position inside the bounds \<open>w\<close> by \<open>h\<close>.\<close>

definition inBounds :: "real \<Rightarrow> real \<Rightarrow> particle \<Rightarrow> bool" where
  "inBounds w h p \<longleftrightarrow> 0 \<le> px p \<and> px p \<le> w \<and> 0 \<le> py p \<and> py p \<le> h"

text \<open>
  The particle that the callback for index \<open>i\<close> leaves behind, written over the array \<open>ps\<close> of
  the start of the frame (see \<open>updateParticles_map\<close>).
\<close>

definition stepped :: "rect \<Rightarrow> real \<Rightarrow> real \<Rightarrow> particle list \<Rightarrow> nat \<Rightarrow> particle" where
  "stepped r mx my ps i =
     (moveParticle r mx my (ps ! i))
       \<lparr>pconnections := connect (moveParticle r mx my (ps ! i)) ps (Suc i) (length ps - Suc i)\<rparr>"

definition exRect :: rect where
  "exRect = \<lparr>r_left = 0, r_top = 0, r_width = 800, r_height = 600\<rparr>"

definition exCanvas :: "bool \<Rightarrow> canvas" where
  "exCanvas has2d =
     \<lparr>boundingRect = exRect, clientWidth = 800, clientHeight = 600, context2d = has2d,
      bufWidth = 300, bufHeight = 150, styleWidth = 0, styleHeight = 0\<rparr>"

definition exEnv :: env where
  "exEnv =
     \<lparr>mouse_x = 500, mouse_y = 300, isMobile = False, isReducedMotion = False,
      devicePixelRatio = 1, nextHandle = 1, pending = [], rand = (\<lambda>n. 1 / 2), randPos = 0,
      now = 0, headStyles = []\<rparr>"

definition exParticle :: "real \<Rightarrow> real \<Rightarrow> real \<Rightarrow> particle" where
  "exParticle a b th =
     \<lparr>px = a, py = b, pz = 0, psize = 2, pspeed = 1 / 2, pangle = th, popacity = 1 / 2,
      pulsePhase = 0, pconnections = []\<rparr>"

definition exHero :: "particle list \<Rightarrow> heroScene" where
  "exHero ps =
     \<lparr>canvas = Some (exCanvas False), ctx = None, isRunning = False, animationId = None,
      time = 0, opt_particleCount = 150, opt_type = ''default'',
      particles = Some ps, shapes = Some [], connections = []\<rparr>"

text \<open>The example canvas with its layout box at \<open>(l, t)\<close> in the viewport.\<close>

definition exCanvasAt :: "real \<Rightarrow> real \<Rightarrow> canvas" where
  "exCanvasAt l t = (exCanvas False)\<lparr>boundingRect := exRect\<lparr>r_left := l, r_top := t\<rparr>\<rparr>"

text \<open>The scene of a result, if the operation returned.\<close>

definition sceneOf :: "error + 'a \<times> env \<Rightarrow> 'a option" where
  "sceneOf res = (case res of Inl err \<Rightarrow> None | Inr (s, e) \<Rightarrow> Some s)"

text \<open>The environment of a result, if the operation returned.\<close>

definition envOf :: "error + 'a \<times> env \<Rightarrow> env option" where
  "envOf res = (case res of Inl err \<Rightarrow> None | Inr (s, e) \<Rightarrow> Some e)"

text \<open>
  Conditions on \<^verbatim>\<open>update\<close> and \<^verbatim>\<open>render\<close> methods, relative to a property \<open>I\<close> of the
  scene: on a scene with \<open>I\<close> the method returns, keeps \<open>I\<close> and leaves the running flag and
  the frame-callback queue alone (\<open>keeps\<close>); \<open>I\<close> does not depend on the stored handle or
  the time (\<open>stable\<close>). \<open>cycles\<close> is what they give for \<^verbatim>\<open>animate\<close>: on a running scene
  one call requests exactly one callback and stays running.
\<close>

definition keeps :: "('a scene3d_scheme \<Rightarrow> bool) \<Rightarrow> 'a action \<Rightarrow> bool" where
  "keeps I f \<longleftrightarrow>
     (\<forall>s e. I s \<longrightarrow>
        (\<exists>s' e'. f (s, e) = Inr (s', e') \<and> I s' \<and> isRunning s' = isRunning s \<and>
           pending e' = pending e \<and> nextHandle e' = nextHandle e))"

definition stable :: "('a scene3d_scheme \<Rightarrow> bool) \<Rightarrow> bool" where
  "stable I \<longleftrightarrow> (\<forall>s h t. I s \<longrightarrow> I (s\<lparr>animationId := h\<rparr>) \<and> I (s\<lparr>time := t\<rparr>))"

definition cycles :: "('a scene3d_scheme \<Rightarrow> bool) \<Rightarrow> 'a action \<Rightarrow> bool" where
  "cycles I anim \<longleftrightarrow>
     (\<forall>s e. I s \<and> isRunning s \<longrightarrow>
        (\<exists>s' e'. anim (s, e) = Inr (s', e') \<and> I s' \<and> isRunning s' \<and>
           pending e' = pending e @ [nextHandle e] \<and> nextHandle e' = Suc (nextHandle e)))"

text \<open>
  A running scene with one callback pending, and one with two; a pending handle is older than
  the next handle the browser will issue.
\<close>

definition chain1 :: "'a state \<Rightarrow> bool" where
  "chain1 = (\<lambda>(s, e). isRunning s \<and> (\<exists>a. pending e = [a] \<and> a < nextHandle e))"

definition chain2 :: "'a state \<Rightarrow> bool" where
  "chain2 = (\<lambda>(s, e). isRunning s \<and> (\<exists>a b. pending e = [a, b] \<and> a < b \<and> b < nextHandle e))"

definition hasCanvas :: "'a scene3d_scheme \<Rightarrow> bool" where
  "hasCanvas s \<longleftrightarrow> canvas s \<noteq> None"

definition exScene :: scene3d where
  "exScene =
     \<lparr>canvas = Some (exCanvas True), ctx = Some [], isRunning = True, animationId = Some 1,
      time = 0, opt_particleCount = 50, opt_type = ''default''\<rparr>"

text \<open>
  One cycle of the frame callback on a running scene, as the body of \<^verbatim>\<open>animate\<close> after its
  guard has it: request the next callback and store its handle, add 0.016 to the time
  (enhanced copy only), call \<^verbatim>\<open>update\<close>, then \<^verbatim>\<open>render\<close>. \<open>turn\<close> takes the oldest pending
  callback off the queue and runs one cycle for it; \<open>turns cyc k\<close> does so \<open>k\<close> times in a
  row.
\<close>

definition cycle :: "'a action \<Rightarrow> 'a action \<Rightarrow> 'a action" where
  "cycle update render = (\<lambda>(s, e).
     bindE (update (s\<lparr>animationId := Some (nextHandle e), time := time s + 0.016\<rparr>,
                    e\<lparr>nextHandle := Suc (nextHandle e), pending := pending e @ [nextHandle e]\<rparr>))
       render)"

definition cycle_app :: "'a action \<Rightarrow> 'a action \<Rightarrow> 'a action" where
  "cycle_app update render = (\<lambda>(s, e).
     bindE (update (s\<lparr>animationId := Some (nextHandle e)\<rparr>,
                    e\<lparr>nextHandle := Suc (nextHandle e), pending := pending e @ [nextHandle e]\<rparr>))
       render)"

definition turn :: "'a action \<Rightarrow> 'a action" where
  "turn cyc = (\<lambda>(s, e).
     case pending e of
       [] \<Rightarrow> Inr (s, e)
     | h # hs \<Rightarrow> cyc (s, e\<lparr>pending := hs\<rparr>))"

fun turns :: "'a action \<Rightarrow> nat \<Rightarrow> 'a action" where
  "turns cyc 0 st = Inr st"
| "turns cyc (Suc k) st = bindE (turn cyc st) (turns cyc k)"

text \<open>
  The number of renders a context has seen: every \<^verbatim>\<open>render\<close> begins with one
  \<^verbatim>\<open>clearRect\<close>, and no drawing routine calls it otherwise.
\<close>

fun isClearRect :: "cmd \<Rightarrow> bool" where
  "isClearRect (ClearRect x y w h) = True"
| "isClearRect c = False"

definition renders :: "'a scene3d_scheme \<Rightarrow> nat" where
  "renders s = (case ctx s of None \<Rightarrow> 0 | Some g \<Rightarrow> length (filter isClearRect g))"

text \<open>
  No drawing surface: no canvas element, or one that yields no 2D context. \<open>inert\<close> says of
  the result of a constructor that it is a scene (no exception) on the given element, without
  context, not running, with no callback requested, on which \<^verbatim>\<open>render\<close>, \<^verbatim>\<open>stop\<close> and
  \<^verbatim>\<open>dispose\<close> change nothing, while \<^verbatim>\<open>start\<close> (\<open>startf\<close>) returns with the scene running
  and a callback requested.
\<close>

definition noSurface :: "canvas option \<Rightarrow> bool" where
  "noSurface cv \<longleftrightarrow> (case cv of None \<Rightarrow> True | Some c \<Rightarrow> \<not> context2d c)"

definition inert :: "canvas option \<Rightarrow> 'a action \<Rightarrow> 'a action \<Rightarrow> env \<Rightarrow> error + 'a state \<Rightarrow> bool" where
  "inert cv render startf e res \<longleftrightarrow>
     (case res of
        Inl err \<Rightarrow> False
      | Inr (s, e') \<Rightarrow>
          canvas s = cv \<and> ctx s = None \<and> \<not> isRunning s \<and> animationId s = None \<and>
          pending e' = pending e \<and> nextHandle e' = nextHandle e \<and>
          (\<forall>e1. render (s, e1) = Inr (s, e1) \<and> stop (s, e1) = (s, e1) \<and> dispose (s, e1) = (s, e1) \<and>
             (\<exists>s1 e2. startf (s, e1) = Inr (s1, e2) \<and> isRunning s1 \<and>
                animationId s1 = Some (nextHandle e1) \<and>
                pending e2 = pending e1 @ [nextHandle e1])))"

text \<open>The object as allocated for \<^verbatim>\<open>new Scene3D\<close>.\<close>

definition sceneAlloc :: scene3d where
  "sceneAlloc =
     \<lparr>canvas = None, ctx = None, isRunning = False, animationId = None, time = 0,
      opt_particleCount = 0, opt_type = []\<rparr>"







section \<open>Properties\<close>

subsection \<open>The particle loop in closed form\<close>

lemma inBounds_clampPos: "0 \<le> w \<Longrightarrow> 0 \<le> h \<Longrightarrow> inBounds w h (clampPos w h p)"
  by (simp add: inBounds_def clampPos_def Let_def)

lemma length_particleStep [simp]: "length (particleStep r mx my i ps) = length ps"
  by (simp add: particleStep_def Let_def)

lemma connect_cong:
  "(\<And>j. a \<le> j \<Longrightarrow> j < a + n \<Longrightarrow> ps ! j = qs ! j) \<Longrightarrow> connect p ps a n = connect p qs a n"
  by (induction n arbitrary: a) simp_all

lemma particleStep_stepped:
  "particleStep r mx my i ps = ps[i := stepped r mx my ps i]"
  by (simp add: particleStep_def stepped_def Let_def)

lemma fold_particleStep:
  "k \<le> length ps \<Longrightarrow>
   fold (particleStep r mx my) [0..<k] ps =
   map (\<lambda>i. if i < k then stepped r mx my ps i else ps ! i) [0..<length ps]"
proof (induction k)
  case 0
  then show ?case by (simp add: map_nth)
next
  case (Suc k)
  let ?qs = "map (\<lambda>i. if i < k then stepped r mx my ps i else ps ! i) [0..<length ps]"
  from Suc have k: "k < length ps" and IH: "fold (particleStep r mx my) [0..<k] ps = ?qs" by simp_all
  have same: "stepped r mx my ?qs k = stepped r mx my ps k"
  proof -
    have "connect p ?qs (Suc k) (length ps - Suc k) = connect p ps (Suc k) (length ps - Suc k)" for p
      by (rule connect_cong) simp
    with k show ?thesis by (simp add: stepped_def)
  qed
  have "fold (particleStep r mx my) [0..<Suc k] ps =
        particleStep r mx my k (fold (particleStep r mx my) [0..<k] ps)"
    by simp
  also have "\<dots> = particleStep r mx my k ?qs"
    by (simp only: IH)
  also have "\<dots> = ?qs[k := stepped r mx my ps k]"
    by (simp only: particleStep_stepped same)
  also have "\<dots> = map (\<lambda>i. if i < Suc k then stepped r mx my ps i else ps ! i) [0..<length ps]"
  proof (rule nth_equalityI)
    show "length (?qs[k := stepped r mx my ps k]) =
          length (map (\<lambda>i. if i < Suc k then stepped r mx my ps i else ps ! i) [0..<length ps])"
      by simp
  next
    fix i
    assume "i < length (?qs[k := stepped r mx my ps k])"
    then have i: "i < length ps" by simp
    show "?qs[k := stepped r mx my ps k] ! i =
          map (\<lambda>i. if i < Suc k then stepped r mx my ps i else ps ! i) [0..<length ps] ! i"
    proof (cases "i = k")
      case True
      with k show ?thesis by simp
    next
      case False
      then have "i < Suc k \<longleftrightarrow> i < k" by arith
      with False i show ?thesis by simp
    qed
  qed
  finally show ?case .
qed

lemma updateParticles_map:
  "updateParticles r mx my ps = map (stepped r mx my ps) [0..<length ps]"
  by (simp add: updateParticles_def fold_particleStep)



lemma length_updateParticles [simp]: "length (updateParticles r mx my ps) = length ps"
  by (simp add: updateParticles_map)

lemma nth_updateParticles:
  "i < length ps \<Longrightarrow> updateParticles r mx my ps ! i = stepped r mx my ps i"
  by (simp add: updateParticles_map)

lemma inBounds_stepped:
  "0 \<le> r_width r \<Longrightarrow> 0 \<le> r_height r \<Longrightarrow> inBounds (r_width r) (r_height r) (stepped r mx my ps i)"
  using inBounds_clampPos [of "r_width r" "r_height r"]
  by (simp add: stepped_def moveParticle_def inBounds_def)

subsection \<open>Clamp invariant\<close>

text \<open>
  C1. A hero scene that has a canvas, whose layout box has non-negative width and height, and
  whose particle and shape arrays are assigned: \<^verbatim>\<open>update\<close> returns without exception, keeps
  the number of particles, and leaves every particle with \<open>0 \<le> x \<le> width\<close> and
  \<open>0 \<le> y \<le> height\<close>. In the enhanced copy the bounds are those of
  \<^verbatim>\<open>getBoundingClientRect()\<close>, in \<^verbatim>\<open>src/app.js\<close> the client width and height.
\<close>

theorem hero_update_clamps:
  assumes "canvas s = Some c" and "particles s = Some ps" and "shapes s = Some shs"
  shows "(0 \<le> r_width (boundingRect c) \<and> 0 \<le> r_height (boundingRect c) \<longrightarrow>
          (\<exists>s' ps'. HeroScene_update (s, e) = Inr (s', e) \<and> particles s' = Some ps' \<and>
             length ps' = length ps \<and>
             (\<forall>p \<in> set ps'. inBounds (r_width (boundingRect c)) (r_height (boundingRect c)) p)))
       \<and> (\<exists>s' ps'. HeroScene_update_app (s, e) = Inr (s', e) \<and> particles s' = Some ps' \<and>
             length ps' = length ps \<and>
             (\<forall>p \<in> set ps'. inBounds (real (clientWidth c)) (real (clientHeight c)) p))"
proof (intro conjI impI)
  assume "0 \<le> r_width (boundingRect c) \<and> 0 \<le> r_height (boundingRect c)"
  then have "\<forall>p \<in> set (updateParticles (boundingRect c) mx my ps).
      inBounds (r_width (boundingRect c)) (r_height (boundingRect c)) p" for mx my
    by (auto simp: updateParticles_map inBounds_stepped)
  with assms show "\<exists>s' ps'. HeroScene_update (s, e) = Inr (s', e) \<and> particles s' = Some ps' \<and>
      length ps' = length ps \<and>
      (\<forall>p \<in> set ps'. inBounds (r_width (boundingRect c)) (r_height (boundingRect c)) p)"
    by (simp add: HeroScene_update_def Let_def)
next
  have "\<forall>p \<in> set (map (moveParticle_app (real (clientWidth c)) (real (clientHeight c))) ps).
      inBounds (real (clientWidth c)) (real (clientHeight c)) p"
    by (simp add: moveParticle_app_def inBounds_clampPos)
  with assms show "\<exists>s' ps'. HeroScene_update_app (s, e) = Inr (s', e) \<and> particles s' = Some ps' \<and>
      length ps' = length ps \<and>
      (\<forall>p \<in> set ps'. inBounds (real (clientWidth c)) (real (clientHeight c)) p)"
    by (simp add: HeroScene_update_app_def Let_def)
qed

theorem hero_update_clamps_witness:
  "canvas (exHero [exParticle 0 300 pi]) = Some (exCanvas False) \<and>
   particles (exHero [exParticle 0 300 pi]) = Some [exParticle 0 300 pi] \<and>
   shapes (exHero [exParticle 0 300 pi]) = Some [] \<and>
   0 \<le> r_width (boundingRect (exCanvas False)) \<and> 0 \<le> r_height (boundingRect (exCanvas False)) \<and>
   (\<exists>s' ps'. HeroScene_update (exHero [exParticle 0 300 pi], exEnv) = Inr (s', exEnv) \<and>
      particles s' = Some ps' \<and> length ps' = 1 \<and> (\<forall>p \<in> set ps'. inBounds 800 600 p)) \<and>
   (\<exists>s' ps'. HeroScene_update_app (exHero [exParticle 0 300 pi], exEnv) = Inr (s', exEnv) \<and>
      particles s' = Some ps' \<and> length ps' = 1 \<and> (\<forall>p \<in> set ps'. inBounds 800 600 p))"
  using hero_update_clamps [of "exHero [exParticle 0 300 pi]" "exCanvas False" "[exParticle 0 300 pi]" "[]" exEnv]
  by (simp add: exHero_def exCanvas_def exRect_def)

subsection \<open>Connections\<close>

lemma sqrt_eqI: "0 \<le> b \<Longrightarrow> a = b\<^sup>2 \<Longrightarrow> sqrt a = b"
  by (simp add: real_sqrt_abs)

lemma mouseDistance_ex500: "mouseDistance 500 300 (exParticle 0 300 pi) = 500"
  unfolding mouseDistance_def by (rule sqrt_eqI) (simp_all add: exParticle_def)



lemma distance_stepped [simp]:
  "distance (stepped r mx my ps i) q = distance (moveParticle r mx my (ps ! i)) q"
  by (simp add: distance_def stepped_def)


lemma moveParticle_ex100:
  "moveParticle exRect 500 300 (exParticle 100 300 0) = (exParticle 100 300 0)\<lparr>px := 201 / 2, pulsePhase := 5 / 100\<rparr>"
proof -
  have "mouseDistance 500 300 (exParticle 100 300 0) = 400"
    unfolding mouseDistance_def by (rule sqrt_eqI) (simp_all add: exParticle_def)
  then have "repel 500 300 (exParticle 100 300 0) = exParticle 100 300 0"
    by (simp add: repel_def Let_def)
  then show ?thesis
    by (simp add: moveParticle_def advance_def pulseStep_def reflect_def clampPos_def Let_def
        exParticle_def exRect_def)
qed



subsection \<open>Reflection at the left boundary\<close>

lemma reflect_left:
  assumes "px p < 0" and "pangle p = pi"
  shows "pangle (reflect w h p) = 0 \<and> px (reflect w h p) = px p"
  using assms by (simp add: reflect_def Let_def)

lemma clamp_left: "px p < 0 \<Longrightarrow> px (clampPos w h p) = 0"
  by (simp add: clampPos_def Let_def)

lemma pangle_clampPos [simp]: "pangle (clampPos w h p) = pangle p"
  by (simp add: clampPos_def Let_def)

lemma advance_pi: "pangle p = pi \<Longrightarrow> px (advance p) = px p - pspeed p \<and> pangle (advance p) = pi"
  by (simp add: advance_def Let_def)

text \<open>
  C3. A particle at \<open>x = 0\<close> with heading \<open>\<pi>\<close> that one update step carries across the
  left boundary (in the enhanced copy: whose position after repulsion and integration is
  negative; in \<^verbatim>\<open>src/app.js\<close>: whose speed is positive) ends the step at \<open>x = 0\<close> with
  heading \<open>\<pi> - \<theta>\<close>: the cosine of the heading has changed sign, its sine has not.
\<close>

theorem left_boundary_reflects:
  assumes "i < length ps" and "px (ps ! i) = 0" and "pangle (ps ! i) = pi"
  shows "(px (advance (repel mx my (ps ! i))) < 0 \<longrightarrow>
            px (updateParticles r mx my ps ! i) = 0 \<and>
            pangle (updateParticles r mx my ps ! i) = pi - pangle (ps ! i) \<and>
            cos (pangle (updateParticles r mx my ps ! i)) = - cos (pangle (ps ! i)) \<and>
            sin (pangle (updateParticles r mx my ps ! i)) = sin (pangle (ps ! i)))
       \<and> (0 < pspeed (ps ! i) \<longrightarrow>
            px (map (moveParticle_app w h) ps ! i) = 0 \<and>
            pangle (map (moveParticle_app w h) ps ! i) = pi - pangle (ps ! i) \<and>
            cos (pangle (map (moveParticle_app w h) ps ! i)) = - cos (pangle (ps ! i)) \<and>
            sin (pangle (map (moveParticle_app w h) ps ! i)) = sin (pangle (ps ! i)))"
proof (intro conjI impI)
  let ?q = "pulseStep (advance (repel mx my (ps ! i)))"
  assume "px (advance (repel mx my (ps ! i))) < 0"
  then have x: "px ?q < 0" by (simp add: pulseStep_def)
  have "pangle (repel mx my (ps ! i)) = pi"
    using assms(3) by (simp add: repel_def Let_def)
  then have a: "pangle ?q = pi" by (simp add: pulseStep_def advance_pi)
  have new: "updateParticles r mx my ps ! i = (clampPos (r_width r) (r_height r) (reflect (r_width r) (r_height r) ?q))
      \<lparr>pconnections := connect (moveParticle r mx my (ps ! i)) ps (Suc i) (length ps - Suc i)\<rparr>"
    using assms(1) by (simp add: nth_updateParticles stepped_def moveParticle_def)
  from reflect_left [OF x a, of "r_width r" "r_height r"] x
  have r: "pangle (reflect (r_width r) (r_height r) ?q) = 0"
      "px (reflect (r_width r) (r_height r) ?q) < 0" by simp_all
  show "px (updateParticles r mx my ps ! i) = 0" by (simp add: new clamp_left r)
  show "pangle (updateParticles r mx my ps ! i) = pi - pangle (ps ! i)"
    by (simp add: new r assms(3))
  show "cos (pangle (updateParticles r mx my ps ! i)) = - cos (pangle (ps ! i))"
    by (simp add: new r assms(3))
  show "sin (pangle (updateParticles r mx my ps ! i)) = sin (pangle (ps ! i))"
    by (simp add: new r assms(3))
next
  let ?q = "advance (ps ! i)"
  assume "0 < pspeed (ps ! i)"
  with advance_pi [OF assms(3)] assms(2) have x: "px ?q < 0" and a: "pangle ?q = pi" by simp_all
  have new: "map (moveParticle_app w h) ps ! i = clampPos w h (reflect w h ?q)"
    using assms(1) by (simp add: moveParticle_app_def)
  from reflect_left [OF x a, of w h] x
  have r: "pangle (reflect w h ?q) = 0" "px (reflect w h ?q) < 0" by simp_all
  show "px (map (moveParticle_app w h) ps ! i) = 0" by (simp add: new clamp_left r)
  show "pangle (map (moveParticle_app w h) ps ! i) = pi - pangle (ps ! i)"
    by (simp add: new r assms(3))
  show "cos (pangle (map (moveParticle_app w h) ps ! i)) = - cos (pangle (ps ! i))"
    by (simp add: new r assms(3))
  show "sin (pangle (map (moveParticle_app w h) ps ! i)) = sin (pangle (ps ! i))"
    by (simp add: new r assms(3))
qed

lemma repel_ex500: "repel 500 300 (exParticle 0 300 pi) = exParticle 0 300 pi"
  by (simp add: repel_def Let_def mouseDistance_ex500)

theorem left_boundary_reflects_witness:
  "(0::nat) < length [exParticle 0 300 pi] \<and> px ([exParticle 0 300 pi] ! 0) = 0 \<and>
   pangle ([exParticle 0 300 pi] ! 0) = pi \<and>
   px (advance (repel 500 300 ([exParticle 0 300 pi] ! 0))) < 0 \<and>
   0 < pspeed ([exParticle 0 300 pi] ! 0) \<and>
   px (updateParticles exRect 500 300 [exParticle 0 300 pi] ! 0) = 0 \<and>
   pangle (updateParticles exRect 500 300 [exParticle 0 300 pi] ! 0) = 0 \<and>
   cos (pangle (updateParticles exRect 500 300 [exParticle 0 300 pi] ! 0)) = 1 \<and>
   sin (pangle (updateParticles exRect 500 300 [exParticle 0 300 pi] ! 0)) = 0 \<and>
   px (map (moveParticle_app 800 600) [exParticle 0 300 pi] ! 0) = 0 \<and>
   cos (pangle (map (moveParticle_app 800 600) [exParticle 0 300 pi] ! 0)) = 1 \<and>
   sin (pangle (map (moveParticle_app 800 600) [exParticle 0 300 pi] ! 0)) = 0"
proof -
  have c: "px (advance (repel 500 300 ([exParticle 0 300 pi] ! 0))) < 0"
    by (simp add: repel_ex500) (simp add: advance_def exParticle_def Let_def)
  have b: "(0::nat) < length [exParticle 0 300 pi]" "px ([exParticle 0 300 pi] ! 0) = 0"
    "pangle ([exParticle 0 300 pi] ! 0) = pi" "0 < pspeed ([exParticle 0 300 pi] ! 0)"
    by (simp_all add: exParticle_def)
  from left_boundary_reflects [OF b(1,2,3), of 500 300 exRect 800 600] b c
  show ?thesis by simp
qed

subsection \<open>Pointer repulsion\<close>

lemma cos_atan2: "a \<noteq> 0 \<or> b \<noteq> 0 \<Longrightarrow> cos (atan2 b a) = a / sqrt (a\<^sup>2 + b\<^sup>2)"
proof -
  assume nz: "a \<noteq> 0 \<or> b \<noteq> 0"
  have key: "a \<noteq> 0 \<Longrightarrow> 1 / sqrt (1 + (b / a)\<^sup>2) = \<bar>a\<bar> / sqrt (a\<^sup>2 + b\<^sup>2)"
  proof -
    assume a: "a \<noteq> 0"
    have "1 + (b / a)\<^sup>2 = (a\<^sup>2 + b\<^sup>2) / a\<^sup>2" using a by (simp add: field_simps power2_eq_square)
    then have "sqrt (1 + (b / a)\<^sup>2) = sqrt (a\<^sup>2 + b\<^sup>2) / \<bar>a\<bar>" by (simp add: real_sqrt_divide)
    then show ?thesis by simp
  qed
  show ?thesis
  proof (cases "a = 0")
    case True
    with nz have "b \<noteq> 0" by simp
    with True show ?thesis by (simp add: atan2_def)
  next
    case False
    then show ?thesis using key [OF False] by (auto simp: atan2_def cos_arctan)
  qed
qed

lemma sin_atan2: "a \<noteq> 0 \<or> b \<noteq> 0 \<Longrightarrow> sin (atan2 b a) = b / sqrt (a\<^sup>2 + b\<^sup>2)"
proof -
  assume nz: "a \<noteq> 0 \<or> b \<noteq> 0"
  have key: "a \<noteq> 0 \<Longrightarrow> (b / a) / sqrt (1 + (b / a)\<^sup>2) = (b / a) * \<bar>a\<bar> / sqrt (a\<^sup>2 + b\<^sup>2)"
  proof -
    assume a: "a \<noteq> 0"
    have "1 + (b / a)\<^sup>2 = (a\<^sup>2 + b\<^sup>2) / a\<^sup>2" using a by (simp add: field_simps power2_eq_square)
    then have "sqrt (1 + (b / a)\<^sup>2) = sqrt (a\<^sup>2 + b\<^sup>2) / \<bar>a\<bar>" by (simp add: real_sqrt_divide)
    then show ?thesis by simp
  qed
  show ?thesis
  proof (cases "a = 0")
    case True
    with nz have "b \<noteq> 0" by simp
    with True show ?thesis by (auto simp: atan2_def real_sqrt_abs)
  next
    case False
    then show ?thesis using key [OF False] by (auto simp: atan2_def sin_arctan)
  qed
qed

lemma mouseDistance_pos_iff: "0 < mouseDistance mx my p \<longleftrightarrow> px p - mx \<noteq> 0 \<or> py p - my \<noteq> 0"
  by (auto simp: mouseDistance_def sum_power2_gt_zero_iff)

lemma mouseDistance_swap: "mouseDistance mx my p = sqrt ((px p - mx)\<^sup>2 + (py p - my)\<^sup>2)"
  by (simp add: mouseDistance_def power2_commute)

lemma repel_unit:
  "(cos (atan2 b a))\<^sup>2 + (sin (atan2 b a))\<^sup>2 = 1"
  by (simp add: add.commute)

lemma repel_direction:
  "a = sqrt (a\<^sup>2 + b\<^sup>2) * cos (atan2 b a) \<and> b = sqrt (a\<^sup>2 + b\<^sup>2) * sin (atan2 b a)"
proof (cases "a \<noteq> 0 \<or> b \<noteq> 0")
  case True
  then have "sqrt (a\<^sup>2 + b\<^sup>2) \<noteq> 0" by (auto simp: sum_power2_eq_zero_iff)
  with True show ?thesis by (simp add: cos_atan2 sin_atan2)
next
  case False
  then show ?thesis by simp
qed

text \<open>
  The repulsion step alone, with \<open>d\<close> the distance from pointer to particle: for \<open>d < 100\<close>
  the particle is displaced by \<open>2 * ((100 - d) / 100)\<close> times a unit vector \<open>(ux, uy)\<close> with
  \<open>particle - pointer = d * (ux, uy)\<close>, which for \<open>0 < d\<close> is the separation divided by \<open>d\<close>;
  for \<open>d \<ge> 100\<close> the particle is left as it is. For \<open>d = 0\<close> the separation has no direction
  and the unit vector is \<open>(1, 0)\<close>, since \<^verbatim>\<open>Math.atan2(0, 0)\<close> is 0.
\<close>

lemma repel_displacement:
  "(mouseDistance mx my p < 100 \<longrightarrow>
      (\<exists>ux uy. ux\<^sup>2 + uy\<^sup>2 = 1 \<and>
         px p - mx = mouseDistance mx my p * ux \<and> py p - my = mouseDistance mx my p * uy \<and>
         px (repel mx my p) = px p + ux * ((100 - mouseDistance mx my p) / 100) * 2 \<and>
         py (repel mx my p) = py p + uy * ((100 - mouseDistance mx my p) / 100) * 2))
   \<and> (0 < mouseDistance mx my p \<and> mouseDistance mx my p < 100 \<longrightarrow>
         px (repel mx my p) = px p + (px p - mx) / mouseDistance mx my p * ((100 - mouseDistance mx my p) / 100) * 2 \<and>
         py (repel mx my p) = py p + (py p - my) / mouseDistance mx my p * ((100 - mouseDistance mx my p) / 100) * 2)
   \<and> (mouseDistance mx my p = 60 \<longrightarrow> mouseForce (mouseDistance mx my p) = 4 / 10)
   \<and> (100 \<le> mouseDistance mx my p \<longrightarrow> repel mx my p = p)"
proof (intro conjI impI)
  assume near: "mouseDistance mx my p < 100"
  let ?a = "atan2 (py p - my) (px p - mx)"
  show "\<exists>ux uy. ux\<^sup>2 + uy\<^sup>2 = 1 \<and>
         px p - mx = mouseDistance mx my p * ux \<and> py p - my = mouseDistance mx my p * uy \<and>
         px (repel mx my p) = px p + ux * ((100 - mouseDistance mx my p) / 100) * 2 \<and>
         py (repel mx my p) = py p + uy * ((100 - mouseDistance mx my p) / 100) * 2"
  proof -
    have 1: "(cos ?a)\<^sup>2 + (sin ?a)\<^sup>2 = 1" by (rule repel_unit)
    have 2: "px p - mx = mouseDistance mx my p * cos ?a"
      using repel_direction [of "px p - mx" "py p - my"] by (simp add: mouseDistance_swap)
    have 3: "py p - my = mouseDistance mx my p * sin ?a"
      using repel_direction [of "px p - mx" "py p - my"] by (simp add: mouseDistance_swap)
    have 4: "px (repel mx my p) = px p + cos ?a * ((100 - mouseDistance mx my p) / 100) * 2"
      using near by (simp add: repel_def Let_def mouseForce_def)
    have 5: "py (repel mx my p) = py p + sin ?a * ((100 - mouseDistance mx my p) / 100) * 2"
      using near by (simp add: repel_def Let_def mouseForce_def)
    from 1 2 3 4 5 show ?thesis by blast
  qed
next
  assume d: "0 < mouseDistance mx my p \<and> mouseDistance mx my p < 100"
  then have nz: "px p - mx \<noteq> 0 \<or> py p - my \<noteq> 0" by (simp add: mouseDistance_pos_iff)
  show "px (repel mx my p) = px p + (px p - mx) / mouseDistance mx my p * ((100 - mouseDistance mx my p) / 100) * 2"
    using d cos_atan2 [OF nz] by (simp add: repel_def Let_def mouseForce_def mouseDistance_swap)
  show "py (repel mx my p) = py p + (py p - my) / mouseDistance mx my p * ((100 - mouseDistance mx my p) / 100) * 2"
    using d sin_atan2 [OF nz] by (simp add: repel_def Let_def mouseForce_def mouseDistance_swap)
next
  assume "mouseDistance mx my p = 60"
  then show "mouseForce (mouseDistance mx my p) = 4 / 10" by (simp add: mouseForce_def)
next
  assume "100 \<le> mouseDistance mx my p"
  then show "repel mx my p = p" by (simp add: repel_def Let_def)
qed

lemma px_clampPos [simp]: "px (clampPos w h p) = max 0 (min w (px p))"
  by (simp add: clampPos_def Let_def)

lemma py_clampPos [simp]: "py (clampPos w h p) = max 0 (min h (py p))"
  by (simp add: clampPos_def Let_def)

lemma pos_reflect [simp]: "px (reflect w h p) = px p" "py (reflect w h p) = py p"
  by (simp_all add: reflect_def Let_def)

lemma pos_pulseStep [simp]: "px (pulseStep p) = px p" "py (pulseStep p) = py p"
  by (simp_all add: pulseStep_def)

lemma pos_advance:
  "px (advance p) = px p + cos (pangle p) * pspeed p"
  "py (advance p) = py p + sin (pangle p) * pspeed p"
  by (simp_all add: advance_def Let_def)

lemma heading_repel [simp]: "pangle (repel mx my p) = pangle p" "pspeed (repel mx my p) = pspeed p"
  by (simp_all add: repel_def Let_def)

lemma pos_moveParticle:
  "px (moveParticle r mx my p) =
     max 0 (min (r_width r) (px (repel mx my p) + cos (pangle p) * pspeed p))"
  "py (moveParticle r mx my p) =
     max 0 (min (r_height r) (py (repel mx my p) + sin (pangle p) * pspeed p))"
  by (simp_all add: moveParticle_def pos_advance)

lemma pos_stepped [simp]:
  "px (stepped r mx my ps i) = px (moveParticle r mx my (ps ! i))"
  "py (stepped r mx my ps i) = py (moveParticle r mx my (ps ! i))"
  by (simp_all add: stepped_def)

text \<open>
  C4. \<^verbatim>\<open>HeroScene.update\<close> of the enhanced copy, on a scene with canvas, particles and shapes,
  returns; for the particle at index \<open>i\<close>, with the pointer taken relative to the corner of
  the canvas's layout box and \<open>d\<close> its distance from the particle as the frame begins, the
  position after the update is the old one, displaced for \<open>d < 100\<close> by
  \<open>2 * ((100 - d) / 100)\<close> times a unit vector \<open>(ux, uy)\<close> that points from the pointer to the
  particle (\<open>particle - pointer = d * (ux, uy)\<close>; for \<open>0 < d\<close> the separation divided by
  \<open>d\<close>), then moved by speed along the heading and clamped to the bounds. At \<open>d = 60\<close> the
  force factor is \<open>0.4\<close>. For \<open>d \<ge> 100\<close> there is no displacement: the position is the old
  one moved by speed along the heading and clamped.
\<close>

theorem hero_update_repels:
  assumes "canvas s = Some c" and "particles s = Some ps" and "shapes s = Some shs"
    and "i < length ps"
  shows "\<exists>s' ps'. HeroScene_update (s, e) = Inr (s', e) \<and> particles s' = Some ps' \<and>
     (let r = boundingRect c;
          mx = mouse_x e - r_left r;
          my = mouse_y e - r_top r;
          p = ps ! i;
          d = sqrt ((mx - px p)\<^sup>2 + (my - py p)\<^sup>2);
          f = (100 - d) / 100
      in (d < 100 \<longrightarrow>
            (\<exists>ux uy. ux\<^sup>2 + uy\<^sup>2 = 1 \<and> px p - mx = d * ux \<and> py p - my = d * uy \<and>
               px (ps' ! i) = max 0 (min (r_width r) (px p + ux * f * 2 + cos (pangle p) * pspeed p)) \<and>
               py (ps' ! i) = max 0 (min (r_height r) (py p + uy * f * 2 + sin (pangle p) * pspeed p)))) \<and>
         (0 < d \<and> d < 100 \<longrightarrow>
            px (ps' ! i) =
              max 0 (min (r_width r) (px p + (px p - mx) / d * f * 2 + cos (pangle p) * pspeed p)) \<and>
            py (ps' ! i) =
              max 0 (min (r_height r) (py p + (py p - my) / d * f * 2 + sin (pangle p) * pspeed p))) \<and>
         (d = 60 \<longrightarrow>
            f = 4 / 10 \<and>
            px (ps' ! i) =
              max 0 (min (r_width r) (px p + (px p - mx) / 60 * (4 / 10) * 2 + cos (pangle p) * pspeed p)) \<and>
            py (ps' ! i) =
              max 0 (min (r_height r) (py p + (py p - my) / 60 * (4 / 10) * 2 + sin (pangle p) * pspeed p))) \<and>
         (100 \<le> d \<longrightarrow>
            px (ps' ! i) = max 0 (min (r_width r) (px p + cos (pangle p) * pspeed p)) \<and>
            py (ps' ! i) = max 0 (min (r_height r) (py p + sin (pangle p) * pspeed p))))"
proof -
  let ?r = "boundingRect c"
  let ?mx = "mouse_x e - r_left ?r" and ?my = "mouse_y e - r_top ?r"
  let ?p = "ps ! i"
  let ?d = "mouseDistance ?mx ?my ?p"
  let ?f = "(100 - ?d) / 100"
  let ?ps' = "updateParticles ?r ?mx ?my ps"
  have upd: "HeroScene_update (s, e) =
      Inr (s\<lparr>particles := Some ?ps', shapes := Some (map turnShape shs)\<rparr>, e)"
    using assms(1-3) by (simp add: HeroScene_update_def Let_def)
  have x: "px (?ps' ! i) = max 0 (min (r_width ?r) (px (repel ?mx ?my ?p) + cos (pangle ?p) * pspeed ?p))"
    and y: "py (?ps' ! i) = max 0 (min (r_height ?r) (py (repel ?mx ?my ?p) + sin (pangle ?p) * pspeed ?p))"
    using assms(4) by (simp_all add: nth_updateParticles pos_moveParticle)
  note rp = repel_displacement [of ?mx ?my ?p]
  have 1: "?d < 100 \<longrightarrow>
      (\<exists>ux uy. ux\<^sup>2 + uy\<^sup>2 = 1 \<and> px ?p - ?mx = ?d * ux \<and> py ?p - ?my = ?d * uy \<and>
         px (?ps' ! i) = max 0 (min (r_width ?r) (px ?p + ux * ?f * 2 + cos (pangle ?p) * pspeed ?p)) \<and>
         py (?ps' ! i) = max 0 (min (r_height ?r) (py ?p + uy * ?f * 2 + sin (pangle ?p) * pspeed ?p)))"
  proof
    assume "?d < 100"
    with rp obtain ux uy where u: "ux\<^sup>2 + uy\<^sup>2 = 1" "px ?p - ?mx = ?d * ux" "py ?p - ?my = ?d * uy"
      "px (repel ?mx ?my ?p) = px ?p + ux * ?f * 2" "py (repel ?mx ?my ?p) = py ?p + uy * ?f * 2"
      by blast
    from u(1-3) x y show "\<exists>ux uy. ux\<^sup>2 + uy\<^sup>2 = 1 \<and> px ?p - ?mx = ?d * ux \<and> py ?p - ?my = ?d * uy \<and>
         px (?ps' ! i) = max 0 (min (r_width ?r) (px ?p + ux * ?f * 2 + cos (pangle ?p) * pspeed ?p)) \<and>
         py (?ps' ! i) = max 0 (min (r_height ?r) (py ?p + uy * ?f * 2 + sin (pangle ?p) * pspeed ?p))"
      unfolding u(4,5) by blast
  qed
  have 2: "0 < ?d \<and> ?d < 100 \<longrightarrow>
      px (?ps' ! i) =
        max 0 (min (r_width ?r) (px ?p + (px ?p - ?mx) / ?d * ?f * 2 + cos (pangle ?p) * pspeed ?p)) \<and>
      py (?ps' ! i) =
        max 0 (min (r_height ?r) (py ?p + (py ?p - ?my) / ?d * ?f * 2 + sin (pangle ?p) * pspeed ?p))"
    using rp x y by simp
  have 3: "?d = 60 \<longrightarrow>
      ?f = 4 / 10 \<and>
      px (?ps' ! i) =
        max 0 (min (r_width ?r) (px ?p + (px ?p - ?mx) / 60 * (4 / 10) * 2 + cos (pangle ?p) * pspeed ?p)) \<and>
      py (?ps' ! i) =
        max 0 (min (r_height ?r) (py ?p + (py ?p - ?my) / 60 * (4 / 10) * 2 + sin (pangle ?p) * pspeed ?p))"
  proof
    assume 60: "?d = 60"
    with 2 have "px (?ps' ! i) =
        max 0 (min (r_width ?r) (px ?p + (px ?p - ?mx) / ?d * ?f * 2 + cos (pangle ?p) * pspeed ?p))"
      "py (?ps' ! i) =
        max 0 (min (r_height ?r) (py ?p + (py ?p - ?my) / ?d * ?f * 2 + sin (pangle ?p) * pspeed ?p))"
      by simp_all
    then show "?f = 4 / 10 \<and>
      px (?ps' ! i) =
        max 0 (min (r_width ?r) (px ?p + (px ?p - ?mx) / 60 * (4 / 10) * 2 + cos (pangle ?p) * pspeed ?p)) \<and>
      py (?ps' ! i) =
        max 0 (min (r_height ?r) (py ?p + (py ?p - ?my) / 60 * (4 / 10) * 2 + sin (pangle ?p) * pspeed ?p))"
      unfolding 60 by simp
  qed
  have 4: "100 \<le> ?d \<longrightarrow>
      px (?ps' ! i) = max 0 (min (r_width ?r) (px ?p + cos (pangle ?p) * pspeed ?p)) \<and>
      py (?ps' ! i) = max 0 (min (r_height ?r) (py ?p + sin (pangle ?p) * pspeed ?p))"
    using rp x y by simp
  from 1 2 3 4 show ?thesis
    by (intro exI [of _ "s\<lparr>particles := Some ?ps', shapes := Some (map turnShape shs)\<rparr>"]
        exI [of _ ?ps'])
      (simp only: upd Let_def mouseDistance_def [symmetric], simp)
qed

theorem hero_update_repels_witness:
  "sqrt ((110 - 10 - 136)\<^sup>2 + (320 - 20 - 348)\<^sup>2) = (60::real) \<and>
   (\<exists>s' ps'. HeroScene_update
       ((exHero [exParticle 136 348 0])\<lparr>canvas := Some (exCanvasAt 10 20)\<rparr>,
        exEnv\<lparr>mouse_x := 110, mouse_y := 320\<rparr>) = Inr (s', exEnv\<lparr>mouse_x := 110, mouse_y := 320\<rparr>) \<and>
      particles s' = Some ps' \<and>
      px (ps' ! 0) = 136 + 36 / 60 * (4 / 10) * 2 + 1 / 2 \<and>
      py (ps' ! 0) = 348 + 48 / 60 * (4 / 10) * 2) \<and>
   (100::real) \<le> sqrt ((500 - 0 - 0)\<^sup>2 + (300 - 0 - 300)\<^sup>2) \<and>
   (\<exists>s' ps'. HeroScene_update (exHero [exParticle 0 300 pi], exEnv) = Inr (s', exEnv) \<and>
      particles s' = Some ps' \<and> px (ps' ! 0) = 0 \<and> py (ps' ! 0) = 300)"
proof -
  let ?h = "(exHero [exParticle 136 348 0])\<lparr>canvas := Some (exCanvasAt 10 20)\<rparr>"
  let ?e = "exEnv\<lparr>mouse_x := 110, mouse_y := 320\<rparr>"
  have d60: "sqrt ((110 - 10 - 136)\<^sup>2 + (320 - 20 - 348)\<^sup>2) = (60::real)"
    by (rule sqrt_eqI) simp_all
  have d500: "sqrt ((500 - 0 - 0)\<^sup>2 + (300 - 0 - 300)\<^sup>2) = (500::real)"
    by (rule sqrt_eqI) simp_all
  have h: "canvas ?h = Some (exCanvasAt 10 20)" "particles ?h = Some [exParticle 136 348 0]"
    "shapes ?h = Some []" "(0::nat) < length [exParticle 136 348 0]"
    by (simp_all add: exHero_def)
  from hero_update_repels [OF h, of ?e] obtain s' ps' where
    u: "HeroScene_update (?h, ?e) = Inr (s', ?e)" "particles s' = Some ps'"
    and c: "sqrt ((110 - 10 - 136)\<^sup>2 + (320 - 20 - 348)\<^sup>2) = (60::real) \<longrightarrow>
       px (ps' ! 0) = max 0 (min 800 (136 + (136 - (110 - 10)) / 60 * (4 / 10) * 2 + cos 0 * (1 / 2))) \<and>
       py (ps' ! 0) = max 0 (min 600 (348 + (348 - (320 - 20)) / 60 * (4 / 10) * 2 + sin 0 * (1 / 2)))"
    by (auto simp: Let_def exCanvasAt_def exRect_def exEnv_def exParticle_def)
  from c d60 have 1: "px (ps' ! 0) = 136 + 36 / 60 * (4 / 10) * 2 + 1 / 2"
    "py (ps' ! 0) = 348 + 48 / 60 * (4 / 10) * 2"
    by simp_all
  let ?g = "exHero [exParticle 0 300 pi]"
  have g: "canvas ?g = Some (exCanvas False)" "particles ?g = Some [exParticle 0 300 pi]"
    "shapes ?g = Some []" "(0::nat) < length [exParticle 0 300 pi]"
    by (simp_all add: exHero_def)
  from hero_update_repels [OF g, of exEnv] obtain t' qs' where
    v: "HeroScene_update (?g, exEnv) = Inr (t', exEnv)" "particles t' = Some qs'"
    and f: "(100::real) \<le> sqrt ((500 - 0 - 0)\<^sup>2 + (300 - 0 - 300)\<^sup>2) \<longrightarrow>
       px (qs' ! 0) = max 0 (min 800 (0 + cos pi * (1 / 2))) \<and>
       py (qs' ! 0) = max 0 (min 600 (300 + sin pi * (1 / 2)))"
    by (auto simp: Let_def exCanvas_def exRect_def exEnv_def exParticle_def)
  from f d500 have 2: "px (qs' ! 0) = 0" "py (qs' ! 0) = 300" by simp_all
  from d60 d500 u 1 v 2 show ?thesis by (simp only:) (intro conjI exI, simp_all)
qed

subsection \<open>Loading screen under reduced motion\<close>

text \<open>
  C9. With the reduced-motion flag set, \<^verbatim>\<open>initParticles\<close> returns the loading manager and the
  environment as they are, whatever the mobile flag and the state of the container: no
  particle element is appended, no random number is drawn, no style element is added. The
  constructor therefore yields a manager whose container is as the page delivered it.
\<close>

theorem reduced_motion_no_particles:
  "isReducedMotion e \<Longrightarrow>
     initParticles (m, e) = (m, e) \<and>
     LoadingManager_new found e = (\<lparr>loadingParticles = found, progress = 0, isComplete = False\<rparr>, e)"
  by (simp add: initParticles_def LoadingManager_new_def)

theorem reduced_motion_no_particles_witness:
  "isReducedMotion (exEnv\<lparr>isReducedMotion := True\<rparr>) \<and>
   initParticles (\<lparr>loadingParticles = Some [], progress = 0, isComplete = False\<rparr>, exEnv\<lparr>isReducedMotion := True\<rparr>)
     = (\<lparr>loadingParticles = Some [], progress = 0, isComplete = False\<rparr>, exEnv\<lparr>isReducedMotion := True\<rparr>) \<and>
   LoadingManager_new (Some []) (exEnv\<lparr>isReducedMotion := True\<rparr>)
     = (\<lparr>loadingParticles = Some [], progress = 0, isComplete = False\<rparr>, exEnv\<lparr>isReducedMotion := True\<rparr>)"
  using reduced_motion_no_particles [of "exEnv\<lparr>isReducedMotion := True\<rparr>"
      "\<lparr>loadingParticles = Some [], progress = 0, isComplete = False\<rparr>" "Some []"]
  by simp

lemma length_makeLoadingParticles: "length (fst (makeLoadingParticles n e)) = n"
proof (induction n arbitrary: e)
  case 0
  then show ?case by simp
next
  case (Suc n)
  then show ?case by (simp add: Let_def case_prod_beta)
qed

lemma initParticles_creates:
  "\<not> isReducedMotion e \<Longrightarrow> loadingParticles m = Some children \<Longrightarrow>
   \<exists>new. loadingParticles (fst (initParticles (m, e))) = Some (children @ new) \<and>
         length new = (if isMobile e then 30 else 60)"
  using length_makeLoadingParticles [of "if isMobile e then 30 else 60" e]
  by (simp add: initParticles_def Let_def case_prod_beta)

subsection \<open>Stopping the frame loop\<close>

lemma not_running_stop [simp]: "\<not> isRunning (fst (stop st))"
  by (cases st) (simp add: stop_def Let_def split: option.splits)

lemma animate_stopped: "\<not> isRunning s \<Longrightarrow> animate update render (s, e) = Inr (s, e)"
  by (simp add: animate_def)

lemma animate_app_stopped: "\<not> isRunning s \<Longrightarrow> animate_app update render (s, e) = Inr (s, e)"
  by (simp add: animate_app_def)

lemma fire_stopped:
  assumes "\<And>s e. \<not> isRunning s \<Longrightarrow> anim (s, e) = Inr (s, e)" and "\<not> isRunning s"
  shows "fire anim h (s, e) = Inr (s, e\<lparr>pending := removeAll h (pending e)\<rparr>)"
  using assms by (simp add: fire_def)

lemma fireAll_stopped:
  assumes "\<And>s e. \<not> isRunning s \<Longrightarrow> anim (s, e) = Inr (s, e)" and "\<not> isRunning s"
  shows "fireAll anim hs (s, e) = Inr (s, e\<lparr>pending := filter (\<lambda>h. h \<notin> set hs) (pending e)\<rparr>)"
proof (induction hs arbitrary: e)
  case Nil
  then show ?case by simp
next
  case (Cons h hs)
  have "filter (\<lambda>k. k \<notin> set hs) (removeAll h xs) = filter (\<lambda>k. k \<notin> set (h # hs)) xs" for xs
    by (induction xs) auto
  then have "filter (\<lambda>k. k \<notin> set hs) (removeAll h (pending e)) = filter (\<lambda>k. k \<notin> set (h # hs)) (pending e)" .
  then show ?case
    by (simp add: fire_stopped [OF assms] bindE_def Cons.IH)
qed

lemma frames_stopped:
  assumes "\<And>s e. \<not> isRunning s \<Longrightarrow> anim (s, e) = Inr (s, e)" and "\<not> isRunning s"
  shows "frames anim n (s, e) = Inr (s, e\<lparr>pending := (if n = 0 then pending e else [])\<rparr>)"
proof (induction n arbitrary: e)
  case 0
  then show ?case by simp
next
  case (Suc n)
  have "refresh anim (s, e) = Inr (s, e\<lparr>pending := []\<rparr>)"
    by (simp add: refresh_def fireAll_stopped [OF assms])
  then show ?case by (simp add: bindE_def Suc.IH)
qed

text \<open>
  C6. After \<^verbatim>\<open>stop()\<close> the scene is not running, and a call of \<^verbatim>\<open>animate\<close> returns at its
  guard with scene and environment unchanged. Hence, whichever frame callbacks the browser
  still runs (any list \<open>hs\<close> of handles, any number \<open>n\<close> of display refreshes), the scene stays
  exactly as \<^verbatim>\<open>stop()\<close> left it; only handles leave the queue. The statement holds for every
  pair of \<^verbatim>\<open>update\<close> and \<^verbatim>\<open>render\<close> methods, which are never called, and for both copies.
\<close>

theorem stop_halts_loop:
  "\<not> isRunning (fst (stop (s, e))) \<and>
   animate update render (stop (s, e)) = Inr (stop (s, e)) \<and>
   animate_app update render (stop (s, e)) = Inr (stop (s, e)) \<and>
   fireAll (animate update render) hs (stop (s, e)) =
     Inr (fst (stop (s, e)),
          (snd (stop (s, e)))\<lparr>pending := filter (\<lambda>h. h \<notin> set hs) (pending (snd (stop (s, e))))\<rparr>) \<and>
   fireAll (animate_app update render) hs (stop (s, e)) =
     Inr (fst (stop (s, e)),
          (snd (stop (s, e)))\<lparr>pending := filter (\<lambda>h. h \<notin> set hs) (pending (snd (stop (s, e))))\<rparr>) \<and>
   frames (animate update render) n (stop (s, e)) =
     Inr (fst (stop (s, e)),
          (snd (stop (s, e)))\<lparr>pending := (if n = 0 then pending (snd (stop (s, e))) else [])\<rparr>) \<and>
   frames (animate_app update render) n (stop (s, e)) =
     Inr (fst (stop (s, e)),
          (snd (stop (s, e)))\<lparr>pending := (if n = 0 then pending (snd (stop (s, e))) else [])\<rparr>)"
proof -
  obtain s1 e1 where st: "stop (s, e) = (s1, e1)" by (cases "stop (s, e)")
  then have nr: "\<not> isRunning s1" using not_running_stop [of "(s, e)"] by simp
  show ?thesis
    unfolding st fst_conv snd_conv
    using nr
      fireAll_stopped [of "animate update render", OF animate_stopped nr]
      fireAll_stopped [of "animate_app update render", OF animate_app_stopped nr]
      frames_stopped [of "animate update render", OF animate_stopped nr]
      frames_stopped [of "animate_app update render", OF animate_app_stopped nr]
    by (simp add: animate_stopped animate_app_stopped)
qed

subsection \<open>Stop followed by start\<close>

lemma updateParticles_ex100:
  "updateParticles exRect 500 300 [exParticle 100 300 0] =
     [(exParticle 100 300 0)\<lparr>px := 201 / 2, pulsePhase := 5 / 100\<rparr>]"
  by (simp add: updateParticles_map stepped_def moveParticle_ex100) (simp add: exParticle_def)

lemma moveParticle_app_ex100:
  "moveParticle_app 800 600 (exParticle 100 300 0) = (exParticle 100 300 0)\<lparr>px := 201 / 2\<rparr>"
  by (simp add: moveParticle_app_def advance_def reflect_def clampPos_def Let_def exParticle_def)

lemma stop_exHero: "stop (exHero ps, exEnv) = (exHero ps, exEnv)"
  by (simp add: stop_def exHero_def Let_def)

text \<open>
  C7, as claimed, fails: \<^verbatim>\<open>start()\<close> calls \<^verbatim>\<open>animate()\<close> itself, which runs a whole cycle
  before it returns. For a hero scene with one particle at \<open>(100, 300)\<close> moving right, stop
  followed by start changes the time accumulator (enhanced copy) and the position of the
  particle (both copies).
\<close>

theorem stop_start_moves_state:
  "map_option time (sceneOf (start HeroScene_update HeroScene_render
       (stop (exHero [exParticle 100 300 0], exEnv)))) \<noteq> Some (time (exHero [exParticle 100 300 0])) \<and>
   map_option particles (sceneOf (start HeroScene_update HeroScene_render
       (stop (exHero [exParticle 100 300 0], exEnv)))) \<noteq> Some (particles (exHero [exParticle 100 300 0])) \<and>
   map_option particles (sceneOf (start_app HeroScene_update_app HeroScene_render_app
       (stop (exHero [exParticle 100 300 0], exEnv)))) \<noteq> Some (particles (exHero [exParticle 100 300 0]))"
proof -
  let ?ps = "[exParticle 100 300 0]"
  have 1: "start HeroScene_update HeroScene_render (exHero ?ps, exEnv) =
      Inr ((exHero ?ps)\<lparr>isRunning := True, animationId := Some 1, time := 0.016,
             particles := Some [(exParticle 100 300 0)\<lparr>px := 201 / 2, pulsePhase := 5 / 100\<rparr>],
             shapes := Some []\<rparr>,
           exEnv\<lparr>nextHandle := 2, pending := [1]\<rparr>)"
    by (simp add: start_def animate_def requestAnimationFrame_def HeroScene_update_def
        HeroScene_render_def bindE_def Let_def exHero_def exEnv_def exCanvas_def
        updateParticles_ex100 [unfolded exRect_def] exRect_def)
  have 2: "start_app HeroScene_update_app HeroScene_render_app (exHero ?ps, exEnv) =
      Inr ((exHero ?ps)\<lparr>isRunning := True, animationId := Some 1,
             particles := Some [(exParticle 100 300 0)\<lparr>px := 201 / 2\<rparr>],
             shapes := Some []\<rparr>,
           exEnv\<lparr>nextHandle := 2, pending := [1]\<rparr>)"
    by (simp add: start_app_def animate_app_def requestAnimationFrame_def HeroScene_update_app_def
        HeroScene_render_app_def bindE_def Let_def exHero_def exEnv_def exCanvas_def
        moveParticle_app_ex100)
  have 3: "(exParticle 100 300 0)\<lparr>px := 201 / 2, pulsePhase := 5 / 100\<rparr> \<noteq> exParticle 100 300 0"
    "(exParticle 100 300 0)\<lparr>px := 201 / 2\<rparr> \<noteq> exParticle 100 300 0"
    by (simp_all add: exParticle_def)
  show ?thesis
    unfolding stop_exHero 1 2 using 3 by (simp add: sceneOf_def exHero_def)
qed

text \<open>
  C7, amended. \<^verbatim>\<open>stop()\<close> clears the running flag and cancels the stored handle: a stored
  handle other than \<^verbatim>\<open>null\<close> and 0 is taken off the queue of pending callbacks, and nothing
  else changes. \<^verbatim>\<open>start()\<close> after it sets the flag and runs one cycle at once: it requests a
  frame callback and stores its handle, adds 0.016 to the time accumulator (enhanced copy
  only), and calls \<^verbatim>\<open>update\<close> and then \<^verbatim>\<open>render\<close> on the scene whose other fields are as
  they were before \<^verbatim>\<open>stop()\<close>. No field is reset.
\<close>

theorem stop_then_start:
  "stop (s, e) =
     (s\<lparr>isRunning := False\<rparr>,
      (case animationId s of
         None \<Rightarrow> e
       | Some h \<Rightarrow> if h \<noteq> 0 then e\<lparr>pending := removeAll h (pending e)\<rparr> else e)) \<and>
   start update render (stop (s, e)) =
     bindE (update (s\<lparr>isRunning := True, animationId := Some (nextHandle e), time := time s + 0.016\<rparr>,
                    e\<lparr>nextHandle := Suc (nextHandle e),
                      pending := (case animationId s of
                                    None \<Rightarrow> pending e
                                  | Some h \<Rightarrow> if h \<noteq> 0 then removeAll h (pending e) else pending e)
                                 @ [nextHandle e]\<rparr>))
       render \<and>
   start_app update render (stop (s, e)) =
     bindE (update (s\<lparr>isRunning := True, animationId := Some (nextHandle e)\<rparr>,
                    e\<lparr>nextHandle := Suc (nextHandle e),
                      pending := (case animationId s of
                                    None \<Rightarrow> pending e
                                  | Some h \<Rightarrow> if h \<noteq> 0 then removeAll h (pending e) else pending e)
                                 @ [nextHandle e]\<rparr>))
       render"
proof -
  let ?q = "case animationId s of
              None \<Rightarrow> pending e
            | Some h \<Rightarrow> if h \<noteq> 0 then removeAll h (pending e) else pending e"
  have st: "stop (s, e) =
     (s\<lparr>isRunning := False\<rparr>,
      (case animationId s of
         None \<Rightarrow> e
       | Some h \<Rightarrow> if h \<noteq> 0 then e\<lparr>pending := removeAll h (pending e)\<rparr> else e))"
    by (simp add: stop_def Let_def cancelAnimationFrame_def split: option.splits)
  have st': "stop (s, e) = (s\<lparr>isRunning := False\<rparr>, e\<lparr>pending := ?q\<rparr>)"
    by (simp add: st split: option.splits)
  have a: "start update render (stop (s, e)) =
     bindE (update (s\<lparr>isRunning := True, animationId := Some (nextHandle e), time := time s + 0.016\<rparr>,
                    e\<lparr>nextHandle := Suc (nextHandle e), pending := ?q @ [nextHandle e]\<rparr>))
       render"
    unfolding st' by (simp add: start_def animate_def requestAnimationFrame_def Let_def)
  have b: "start_app update render (stop (s, e)) =
     bindE (update (s\<lparr>isRunning := True, animationId := Some (nextHandle e)\<rparr>,
                    e\<lparr>nextHandle := Suc (nextHandle e), pending := ?q @ [nextHandle e]\<rparr>))
       render"
    unfolding st' by (simp add: start_app_def animate_app_def requestAnimationFrame_def Let_def)
  from st a b show ?thesis by (intro conjI)
qed

theorem stop_then_start_witness:
  "stop (exScene, exEnv\<lparr>nextHandle := 2, pending := [1]\<rparr>) =
     (exScene\<lparr>isRunning := False\<rparr>, exEnv\<lparr>nextHandle := 2, pending := []\<rparr>) \<and>
   start Scene3D_update Scene3D_render (stop (exScene, exEnv\<lparr>nextHandle := 2, pending := [1]\<rparr>)) =
     bindE (Scene3D_update
              (exScene\<lparr>isRunning := True, animationId := Some 2, time := 0.016\<rparr>,
               exEnv\<lparr>nextHandle := 3, pending := [2]\<rparr>))
       Scene3D_render"
proof -
  have a: "animationId exScene = Some 1" "time exScene = 0"
    by (simp_all add: exScene_def)
  note t = stop_then_start [of exScene "exEnv\<lparr>nextHandle := 2, pending := [1]\<rparr>"
      Scene3D_update Scene3D_render]
  from t [THEN conjunct1]
  have 1: "stop (exScene, exEnv\<lparr>nextHandle := 2, pending := [1]\<rparr>) =
     (exScene\<lparr>isRunning := False\<rparr>, exEnv\<lparr>nextHandle := 2, pending := []\<rparr>)"
    by (simp add: a)
  from t [THEN conjunct2, THEN conjunct1]
  have 2: "start Scene3D_update Scene3D_render (stop (exScene, exEnv\<lparr>nextHandle := 2, pending := [1]\<rparr>)) =
     bindE (Scene3D_update
              (exScene\<lparr>isRunning := True, animationId := Some 2, time := 0.016\<rparr>,
               exEnv\<lparr>nextHandle := 3, pending := [2]\<rparr>))
       Scene3D_render"
    by (simp add: a)
  from 1 2 show ?thesis by (rule conjI)
qed

subsection \<open>Starting a running scene\<close>

lemma cycles_animate:
  assumes "keeps I update" and "keeps I render" and "stable I"
  shows "cycles I (animate update render)"
  unfolding cycles_def
proof (intro allI impI)
  fix s :: "'a scene3d_scheme" and e :: env
  assume a: "I s \<and> isRunning s"
  let ?s2 = "s\<lparr>animationId := Some (nextHandle e), time := time s + 0.016\<rparr>"
  let ?e1 = "e\<lparr>nextHandle := Suc (nextHandle e), pending := pending e @ [nextHandle e]\<rparr>"
  from a assms(3) have "I (s\<lparr>animationId := Some (nextHandle e)\<rparr>)" by (simp add: stable_def)
  with assms(3) have "I ((s\<lparr>animationId := Some (nextHandle e)\<rparr>)\<lparr>time := time s + 0.016\<rparr>)"
    unfolding stable_def by blast
  then have I2: "I ?s2" by simp
  with assms(1) obtain s3 e3 where u: "update (?s2, ?e1) = Inr (s3, e3)" "I s3"
      "isRunning s3 = isRunning ?s2" "pending e3 = pending ?e1" "nextHandle e3 = nextHandle ?e1"
    unfolding keeps_def by blast
  with assms(2) obtain s4 e4 where r: "render (s3, e3) = Inr (s4, e4)" "I s4"
      "isRunning s4 = isRunning s3" "pending e4 = pending e3" "nextHandle e4 = nextHandle e3"
    unfolding keeps_def by blast
  have "animate update render (s, e) = Inr (s4, e4)"
    using a u(1) r(1) by (simp add: animate_def requestAnimationFrame_def Let_def bindE_def)
  with a u r show "\<exists>s' e'. animate update render (s, e) = Inr (s', e') \<and> I s' \<and> isRunning s' \<and>
           pending e' = pending e @ [nextHandle e] \<and> nextHandle e' = Suc (nextHandle e)"
    by simp
qed

lemma cycles_animate_app:
  assumes "keeps I update" and "keeps I render" and "stable I"
  shows "cycles I (animate_app update render)"
  unfolding cycles_def
proof (intro allI impI)
  fix s :: "'a scene3d_scheme" and e :: env
  assume a: "I s \<and> isRunning s"
  let ?s2 = "s\<lparr>animationId := Some (nextHandle e)\<rparr>"
  let ?e1 = "e\<lparr>nextHandle := Suc (nextHandle e), pending := pending e @ [nextHandle e]\<rparr>"
  from a assms(3) have I2: "I ?s2" by (simp add: stable_def)
  with assms(1) obtain s3 e3 where u: "update (?s2, ?e1) = Inr (s3, e3)" "I s3"
      "isRunning s3 = isRunning ?s2" "pending e3 = pending ?e1" "nextHandle e3 = nextHandle ?e1"
    unfolding keeps_def by blast
  with assms(2) obtain s4 e4 where r: "render (s3, e3) = Inr (s4, e4)" "I s4"
      "isRunning s4 = isRunning s3" "pending e4 = pending e3" "nextHandle e4 = nextHandle e3"
    unfolding keeps_def by blast
  have "animate_app update render (s, e) = Inr (s4, e4)"
    using a u(1) r(1) by (simp add: animate_app_def requestAnimationFrame_def Let_def bindE_def)
  with a u r show "\<exists>s' e'. animate_app update render (s, e) = Inr (s', e') \<and> I s' \<and> isRunning s' \<and>
           pending e' = pending e @ [nextHandle e] \<and> nextHandle e' = Suc (nextHandle e)"
    by simp
qed

lemma refresh_chain1:
  assumes "cycles I anim" and "I s" and "chain1 (s, e)"
  shows "\<exists>s' e'. refresh anim (s, e) = Inr (s', e') \<and> I s' \<and> chain1 (s', e') \<and>
           nextHandle e' = nextHandle e + 1"
proof -
  from assms(3) obtain a where p: "isRunning s" "pending e = [a]" "a < nextHandle e"
    by (auto simp: chain1_def)
  from assms(1,2) p(1) obtain s1 e1 where
    1: "anim (s, e\<lparr>pending := []\<rparr>) = Inr (s1, e1)" "I s1" "isRunning s1"
       "pending e1 = [nextHandle e]" "nextHandle e1 = Suc (nextHandle e)"
    unfolding cycles_def by fastforce
  have "refresh anim (s, e) = Inr (s1, e1)"
    using p 1(1) by (simp add: refresh_def fire_def bindE_def)
  with 1 show ?thesis by (simp add: chain1_def)
qed

lemma refresh_chain2:
  assumes "cycles I anim" and "I s" and "chain2 (s, e)"
  shows "\<exists>s' e'. refresh anim (s, e) = Inr (s', e') \<and> I s' \<and> chain2 (s', e') \<and>
           nextHandle e' = nextHandle e + 2"
proof -
  from assms(3) obtain a b where p: "isRunning s" "pending e = [a, b]" "a < b" "b < nextHandle e"
    by (auto simp: chain2_def)
  from assms(1,2) p(1) obtain s1 e1 where
    1: "anim (s, e\<lparr>pending := [b]\<rparr>) = Inr (s1, e1)" "I s1" "isRunning s1"
       "pending e1 = [b, nextHandle e]" "nextHandle e1 = Suc (nextHandle e)"
    unfolding cycles_def by fastforce
  from assms(1) 1(2,3) obtain s2 e2 where
    2: "anim (s1, e1\<lparr>pending := [nextHandle e]\<rparr>) = Inr (s2, e2)" "I s2" "isRunning s2"
       "pending e2 = [nextHandle e, Suc (nextHandle e)]" "nextHandle e2 = Suc (Suc (nextHandle e))"
    unfolding cycles_def using 1(5) by fastforce
  have "fire anim a (s, e) = Inr (s1, e1)"
    using p 1(1) by (simp add: fire_def)
  moreover have "fire anim b (s1, e1) = Inr (s2, e2)"
    using p 1(4) 2(1) by (simp add: fire_def)
  ultimately have "refresh anim (s, e) = Inr (s2, e2)"
    using p by (simp add: refresh_def bindE_def)
  with 2 show ?thesis by (simp add: chain2_def)
qed

lemma frames_chain1:
  assumes "cycles I anim"
  shows "I s \<Longrightarrow> chain1 (s, e) \<Longrightarrow>
     \<exists>s' e'. frames anim n (s, e) = Inr (s', e') \<and> I s' \<and> chain1 (s', e') \<and>
       nextHandle e' = nextHandle e + n"
proof (induction n arbitrary: s e)
  case 0
  then show ?case by simp
next
  case (Suc n)
  from refresh_chain1 [OF assms Suc.prems] obtain s1 e1 where
    1: "refresh anim (s, e) = Inr (s1, e1)" "I s1" "chain1 (s1, e1)" "nextHandle e1 = nextHandle e + 1"
    by blast
  from Suc.IH [OF 1(2,3)] obtain s2 e2 where
    2: "frames anim n (s1, e1) = Inr (s2, e2)" "I s2" "chain1 (s2, e2)" "nextHandle e2 = nextHandle e1 + n"
    by blast
  from 1 2 show ?case by (simp add: bindE_def)
qed

lemma frames_chain2:
  assumes "cycles I anim"
  shows "I s \<Longrightarrow> chain2 (s, e) \<Longrightarrow>
     \<exists>s' e'. frames anim n (s, e) = Inr (s', e') \<and> I s' \<and> chain2 (s', e') \<and>
       nextHandle e' = nextHandle e + 2 * n"
proof (induction n arbitrary: s e)
  case 0
  then show ?case by simp
next
  case (Suc n)
  from refresh_chain2 [OF assms Suc.prems] obtain s1 e1 where
    1: "refresh anim (s, e) = Inr (s1, e1)" "I s1" "chain2 (s1, e1)" "nextHandle e1 = nextHandle e + 2"
    by blast
  from Suc.IH [OF 1(2,3)] obtain s2 e2 where
    2: "frames anim n (s1, e1) = Inr (s2, e2)" "I s2" "chain2 (s2, e2)" "nextHandle e2 = nextHandle e1 + 2 * n"
    by blast
  from 1 2 show ?case by (simp add: bindE_def)
qed

lemma start_chain1:
  assumes "cycles I anim" and "I s" and "chain1 (s, e)"
  shows "\<exists>s' e'. anim (s\<lparr>isRunning := True\<rparr>, e) = Inr (s', e') \<and> I s' \<and> chain2 (s', e') \<and>
      pending e' = pending e @ [nextHandle e] \<and> nextHandle e' = nextHandle e + 1"
proof -
  from assms(3) obtain a where p: "isRunning s" "pending e = [a]" "a < nextHandle e"
    by (auto simp: chain1_def)
  then have "s\<lparr>isRunning := True\<rparr> = s" by simp
  with assms(1,2) p(1) obtain s1 e1 where
    1: "anim (s\<lparr>isRunning := True\<rparr>, e) = Inr (s1, e1)" "I s1" "isRunning s1"
       "pending e1 = pending e @ [nextHandle e]" "nextHandle e1 = Suc (nextHandle e)"
    unfolding cycles_def by fastforce
  with p show ?thesis by (simp add: chain2_def)
qed

lemma animate_cycle: "isRunning s \<Longrightarrow> animate update render (s, e) = cycle update render (s, e)"
  by (simp add: animate_def cycle_def requestAnimationFrame_def Let_def)

lemma animate_app_cycle: "isRunning s \<Longrightarrow> animate_app update render (s, e) = cycle_app update render (s, e)"
  by (simp add: animate_app_def cycle_app_def requestAnimationFrame_def Let_def)

lemma refresh_chain1_turn:
  assumes "cycles I anim" and eq: "\<And>s e. isRunning s \<Longrightarrow> anim (s, e) = cyc (s, e)"
    and "I s" and "chain1 (s, e)"
  shows "\<exists>s' e'. refresh anim (s, e) = Inr (s', e') \<and> turn cyc (s, e) = Inr (s', e') \<and>
           I s' \<and> chain1 (s', e')"
proof -
  from assms(4) obtain a where p: "isRunning s" "pending e = [a]" "a < nextHandle e"
    by (auto simp: chain1_def)
  from assms(1,3) p(1) obtain s1 e1 where
    1: "anim (s, e\<lparr>pending := []\<rparr>) = Inr (s1, e1)" "I s1" "isRunning s1"
       "pending e1 = [nextHandle e]" "nextHandle e1 = Suc (nextHandle e)"
    unfolding cycles_def by fastforce
  have "refresh anim (s, e) = Inr (s1, e1)"
    using p 1(1) by (simp add: refresh_def fire_def bindE_def)
  moreover have "turn cyc (s, e) = Inr (s1, e1)"
    using p 1(1) eq [OF p(1)] by (simp add: turn_def)
  ultimately show ?thesis using 1 by (simp add: chain1_def)
qed

lemma refresh_chain2_turn:
  assumes "cycles I anim" and eq: "\<And>s e. isRunning s \<Longrightarrow> anim (s, e) = cyc (s, e)"
    and "I s" and "chain2 (s, e)"
  shows "\<exists>s1 e1 s' e'. refresh anim (s, e) = Inr (s', e') \<and> turn cyc (s, e) = Inr (s1, e1) \<and>
           turn cyc (s1, e1) = Inr (s', e') \<and> I s' \<and> chain2 (s', e')"
proof -
  from assms(4) obtain a b where p: "isRunning s" "pending e = [a, b]" "a < b" "b < nextHandle e"
    by (auto simp: chain2_def)
  from assms(1,3) p(1) obtain s1 e1 where
    1: "anim (s, e\<lparr>pending := [b]\<rparr>) = Inr (s1, e1)" "I s1" "isRunning s1"
       "pending e1 = [b, nextHandle e]" "nextHandle e1 = Suc (nextHandle e)"
    unfolding cycles_def by fastforce
  from assms(1) 1(2,3) obtain s2 e2 where
    2: "anim (s1, e1\<lparr>pending := [nextHandle e]\<rparr>) = Inr (s2, e2)" "I s2" "isRunning s2"
       "pending e2 = [nextHandle e, Suc (nextHandle e)]" "nextHandle e2 = Suc (Suc (nextHandle e))"
    unfolding cycles_def using 1(5) by fastforce
  have "fire anim a (s, e) = Inr (s1, e1)"
    using p 1(1) by (simp add: fire_def)
  moreover have "fire anim b (s1, e1) = Inr (s2, e2)"
    using p 1(4) 2(1) by (simp add: fire_def)
  ultimately have r: "refresh anim (s, e) = Inr (s2, e2)"
    using p by (simp add: refresh_def bindE_def)
  have t1: "turn cyc (s, e) = Inr (s1, e1)"
    using p 1(1) eq [OF p(1)] by (simp add: turn_def)
  have t2: "turn cyc (s1, e1) = Inr (s2, e2)"
    using 1(3,4) 2(1) eq [OF 1(3)] by (simp add: turn_def)
  from r t1 t2 2 show ?thesis by (simp add: chain2_def)
qed

lemma frames_chain1_turns:
  assumes "cycles I anim" and eq: "\<And>s e. isRunning s \<Longrightarrow> anim (s, e) = cyc (s, e)"
  shows "I s \<Longrightarrow> chain1 (s, e) \<Longrightarrow> frames anim n (s, e) = turns cyc n (s, e)"
proof (induction n arbitrary: s e)
  case 0
  then show ?case by simp
next
  case (Suc n)
  from refresh_chain1_turn [OF assms(1) eq Suc.prems] obtain s1 e1 where
    1: "refresh anim (s, e) = Inr (s1, e1)" "turn cyc (s, e) = Inr (s1, e1)" "I s1" "chain1 (s1, e1)"
    by blast
  from Suc.IH [OF 1(3,4)] 1(1,2) show ?case by (simp add: bindE_def)
qed

lemma frames_chain2_turns:
  assumes "cycles I anim" and eq: "\<And>s e. isRunning s \<Longrightarrow> anim (s, e) = cyc (s, e)"
  shows "I s \<Longrightarrow> chain2 (s, e) \<Longrightarrow> frames anim n (s, e) = turns cyc (2 * n) (s, e)"
proof (induction n arbitrary: s e)
  case 0
  then show ?case by simp
next
  case (Suc n)
  from refresh_chain2_turn [OF assms(1) eq Suc.prems] obtain s1 e1 s2 e2 where
    1: "refresh anim (s, e) = Inr (s2, e2)" "turn cyc (s, e) = Inr (s1, e1)"
       "turn cyc (s1, e1) = Inr (s2, e2)" "I s2" "chain2 (s2, e2)"
    by blast
  from Suc.IH [OF 1(4,5)] 1(1-3) show ?case by (simp add: bindE_def)
qed

lemma second_start_turns:
  assumes c: "cycles I anim" and eq: "\<And>s e. isRunning s \<Longrightarrow> anim (s, e) = cyc (s, e)"
    and i: "I s" and ch: "chain1 (s, e)"
  shows "(\<exists>s2 e2. anim (s, e) = Inr (s2, e2) \<and> anim (s, e) = cyc (s, e) \<and> isRunning s2 \<and>
            pending e2 = pending e @ [nextHandle e] \<and> length (pending e2) = 2 \<and>
            (\<forall>n. frames anim n (s2, e2) = turns cyc (2 * n) (s2, e2) \<and>
                 (\<exists>s3 e3. frames anim n (s2, e2) = Inr (s3, e3) \<and> isRunning s3 \<and>
                   length (pending e3) = 2 \<and> nextHandle e3 = nextHandle e2 + 2 * n)))
       \<and> (\<forall>n. frames anim n (s, e) = turns cyc n (s, e) \<and>
               (\<exists>s3 e3. frames anim n (s, e) = Inr (s3, e3) \<and> isRunning s3 \<and>
                   length (pending e3) = 1 \<and> nextHandle e3 = nextHandle e + n))"
proof (intro conjI allI)
  from ch have run: "isRunning s" by (simp add: chain1_def)
  then have same: "s\<lparr>isRunning := True\<rparr> = s" by simp
  from start_chain1 [OF c i ch] same obtain s2 e2 where
    2: "anim (s, e) = Inr (s2, e2)" "I s2" "chain2 (s2, e2)"
       "pending e2 = pending e @ [nextHandle e]"
    by auto
  have "frames anim n (s2, e2) = turns cyc (2 * n) (s2, e2) \<and>
        (\<exists>s3 e3. frames anim n (s2, e2) = Inr (s3, e3) \<and> isRunning s3 \<and>
                 length (pending e3) = 2 \<and> nextHandle e3 = nextHandle e2 + 2 * n)" for n
  proof
    show "frames anim n (s2, e2) = turns cyc (2 * n) (s2, e2)"
      by (rule frames_chain2_turns [OF c eq 2(2,3)])
    from frames_chain2 [OF c 2(2,3), of n]
    show "\<exists>s3 e3. frames anim n (s2, e2) = Inr (s3, e3) \<and> isRunning s3 \<and>
                 length (pending e3) = 2 \<and> nextHandle e3 = nextHandle e2 + 2 * n"
      by (auto simp: chain2_def)
  qed
  then have F: "\<forall>n. frames anim n (s2, e2) = turns cyc (2 * n) (s2, e2) \<and>
        (\<exists>s3 e3. frames anim n (s2, e2) = Inr (s3, e3) \<and> isRunning s3 \<and>
                 length (pending e3) = 2 \<and> nextHandle e3 = nextHandle e2 + 2 * n)" by blast
  from 2(3) have r2: "isRunning s2" "length (pending e2) = 2" by (auto simp: chain2_def)
  from 2(1,4) eq [OF run, of e] r2 F
  show "\<exists>s2 e2. anim (s, e) = Inr (s2, e2) \<and> anim (s, e) = cyc (s, e) \<and> isRunning s2 \<and>
          pending e2 = pending e @ [nextHandle e] \<and> length (pending e2) = 2 \<and>
          (\<forall>n. frames anim n (s2, e2) = turns cyc (2 * n) (s2, e2) \<and>
               (\<exists>s3 e3. frames anim n (s2, e2) = Inr (s3, e3) \<and> isRunning s3 \<and>
                 length (pending e3) = 2 \<and> nextHandle e3 = nextHandle e2 + 2 * n))"
    by blast
next
  fix n
  show "frames anim n (s, e) = turns cyc n (s, e)"
    by (rule frames_chain1_turns [OF c eq i ch])
next
  fix n
  show "\<exists>s3 e3. frames anim n (s, e) = Inr (s3, e3) \<and> isRunning s3 \<and>
                 length (pending e3) = 1 \<and> nextHandle e3 = nextHandle e + n"
    using frames_chain1 [OF c i ch, of n] by (auto simp: chain1_def)
qed

lemma start_running:
  "isRunning s \<Longrightarrow> start update render (s, e) = animate update render (s, e)"
  "isRunning s \<Longrightarrow> start_app update render (s, e) = animate_app update render (s, e)"
proof -
  assume "isRunning s"
  then have "s\<lparr>isRunning := True\<rparr> = s" by simp
  then show "start update render (s, e) = animate update render (s, e)"
    "start_app update render (s, e) = animate_app update render (s, e)"
    by (simp_all add: start_def start_app_def)
qed

lemma turn_base:
  assumes "canvas s = Some c" and "ctx s = Some g"
  shows "turn (cycle Scene3D_update Scene3D_render) (s, e\<lparr>pending := h # hs\<rparr>) =
           Inr (s\<lparr>animationId := Some (nextHandle e), time := time s + 0.016,
                  ctx := Some (g @ [ClearRect 0 0 (r_width (boundingRect c)) (r_height (boundingRect c))]
                                 @ renderDefault (boundingRect c) (time s + 0.016))\<rparr>,
                e\<lparr>nextHandle := Suc (nextHandle e), pending := hs @ [nextHandle e]\<rparr>)"
  using assms
  by (simp add: turn_def cycle_def Scene3D_update_def Scene3D_render_def bindE_def Let_def)

lemma turn_base_app:
  assumes "canvas s = Some c" and "ctx s = Some g"
  shows "turn (cycle_app Scene3D_update Scene3D_render_app) (s, e\<lparr>pending := h # hs\<rparr>) =
           Inr (s\<lparr>animationId := Some (nextHandle e),
                  ctx := Some (g @ [ClearRect 0 0 (r_width (boundingRect c)) (r_height (boundingRect c))]
                                 @ renderDefault (boundingRect c) (now e * 0.001))\<rparr>,
                e\<lparr>nextHandle := Suc (nextHandle e), pending := hs @ [nextHandle e]\<rparr>)"
  using assms
  by (simp add: turn_def cycle_app_def Scene3D_update_def Scene3D_render_app_def bindE_def Let_def)

lemma filter_renderDefault [simp]: "filter isClearRect (renderDefault r t) = []"
  by (simp add: renderDefault_def Let_def)

lemma turns_base:
  "canvas s = Some c \<Longrightarrow> ctx s = Some g \<Longrightarrow> pending e \<noteq> [] \<Longrightarrow>
   \<exists>s' e'. turns (cycle Scene3D_update Scene3D_render) k (s, e) = Inr (s', e') \<and>
     time s' = time s + real k * 0.016 \<and> renders s' = renders s + k"
proof (induction k arbitrary: s e g)
  case 0
  then show ?case by simp
next
  case (Suc k)
  from Suc.prems(3) obtain h hs where p: "pending e = h # hs" by (cases "pending e") auto
  then have e: "e = e\<lparr>pending := h # hs\<rparr>" by simp
  let ?g = "g @ [ClearRect 0 0 (r_width (boundingRect c)) (r_height (boundingRect c))]
              @ renderDefault (boundingRect c) (time s + 0.016)"
  let ?s = "s\<lparr>animationId := Some (nextHandle e), time := time s + 0.016, ctx := Some ?g\<rparr>"
  let ?e = "e\<lparr>nextHandle := Suc (nextHandle e), pending := hs @ [nextHandle e]\<rparr>"
  have t: "turn (cycle Scene3D_update Scene3D_render) (s, e) = Inr (?s, ?e)"
    using turn_base [OF Suc.prems(1,2), where e = e and h = h and hs = hs] e by simp
  have "canvas ?s = Some c" "ctx ?s = Some ?g" "pending ?e \<noteq> []"
    using Suc.prems(1) by simp_all
  from Suc.IH [OF this] obtain s' e' where
    r: "turns (cycle Scene3D_update Scene3D_render) k (?s, ?e) = Inr (s', e')"
       "time s' = time ?s + real k * 0.016" "renders s' = renders ?s + k"
    by blast
  have n: "renders ?s = renders s + 1"
    using Suc.prems(2) by (simp add: renders_def)
  have "turns (cycle Scene3D_update Scene3D_render) (Suc k) (s, e) = Inr (s', e')"
    using t r(1) by (simp add: bindE_def)
  moreover have "time s' = time s + real (Suc k) * 0.016"
    using r(2) by (simp add: algebra_simps)
  moreover have "renders s' = renders s + Suc k"
    using r(3) n by simp
  ultimately show ?case by blast
qed

lemma turns_base_app:
  "canvas s = Some c \<Longrightarrow> ctx s = Some g \<Longrightarrow> pending e \<noteq> [] \<Longrightarrow>
   \<exists>s' e'. turns (cycle_app Scene3D_update Scene3D_render_app) k (s, e) = Inr (s', e') \<and>
     time s' = time s \<and> renders s' = renders s + k"
proof (induction k arbitrary: s e g)
  case 0
  then show ?case by simp
next
  case (Suc k)
  from Suc.prems(3) obtain h hs where p: "pending e = h # hs" by (cases "pending e") auto
  then have e: "e = e\<lparr>pending := h # hs\<rparr>" by simp
  let ?g = "g @ [ClearRect 0 0 (r_width (boundingRect c)) (r_height (boundingRect c))]
              @ renderDefault (boundingRect c) (now e * 0.001)"
  let ?s = "s\<lparr>animationId := Some (nextHandle e), ctx := Some ?g\<rparr>"
  let ?e = "e\<lparr>nextHandle := Suc (nextHandle e), pending := hs @ [nextHandle e]\<rparr>"
  have t: "turn (cycle_app Scene3D_update Scene3D_render_app) (s, e) = Inr (?s, ?e)"
    using turn_base_app [OF Suc.prems(1,2), where e = e and h = h and hs = hs] e by simp
  have "canvas ?s = Some c" "ctx ?s = Some ?g" "pending ?e \<noteq> []"
    using Suc.prems(1) by simp_all
  from Suc.IH [OF this] obtain s' e' where
    r: "turns (cycle_app Scene3D_update Scene3D_render_app) k (?s, ?e) = Inr (s', e')"
       "time s' = time ?s" "renders s' = renders ?s + k"
    by blast
  have n: "renders ?s = renders s + 1"
    using Suc.prems(2) by (simp add: renders_def)
  have "turns (cycle_app Scene3D_update Scene3D_render_app) (Suc k) (s, e) = Inr (s', e')"
    using t r(1) by (simp add: bindE_def)
  moreover have "time s' = time s"
    using r(2) by simp
  moreover have "renders s' = renders s + Suc k"
    using r(3) n by simp
  ultimately show ?case by blast
qed

lemma keeps_Scene3D_update: "keeps I Scene3D_update"
  by (simp add: keeps_def Scene3D_update_def)

lemma keeps_Scene3D_render: "keeps hasCanvas Scene3D_render"
  by (auto simp: keeps_def hasCanvas_def Scene3D_render_def Let_def split: option.splits)

lemma stable_hasCanvas: "stable hasCanvas"
  by (simp add: stable_def hasCanvas_def)

lemma keeps_Scene3D_render_app: "keeps hasCanvas Scene3D_render_app"
  by (auto simp: keeps_def hasCanvas_def Scene3D_render_app_def Let_def split: option.splits)

lemma second_start_base:
  assumes cv: "canvas s = Some c" and cx: "ctx s = Some g" and ch: "chain1 (s, e)"
  shows "\<exists>s2 e2. start Scene3D_update Scene3D_render (s, e) = Inr (s2, e2) \<and>
           (\<forall>n. \<exists>s3 e3 s4 e4.
              frames (animate Scene3D_update Scene3D_render) n (s2, e2) = Inr (s3, e3) \<and>
              time s3 = time s + real (2 * n + 1) * 0.016 \<and> renders s3 = renders s + (2 * n + 1) \<and>
              frames (animate Scene3D_update Scene3D_render) n (s, e) = Inr (s4, e4) \<and>
              time s4 = time s + real n * 0.016 \<and> renders s4 = renders s + n)"
proof -
  let ?anim = "animate Scene3D_update Scene3D_render"
  let ?cyc = "cycle Scene3D_update Scene3D_render"
  from ch have run: "isRunning s" and pe: "pending e \<noteq> []" by (auto simp: chain1_def)
  from cv have i: "hasCanvas s" by (simp add: hasCanvas_def)
  note t = second_start_turns [OF cycles_animate [OF keeps_Scene3D_update keeps_Scene3D_render stable_hasCanvas]
      animate_cycle i ch]
  let ?g = "g @ [ClearRect 0 0 (r_width (boundingRect c)) (r_height (boundingRect c))]
              @ renderDefault (boundingRect c) (time s + 0.016)"
  let ?s = "s\<lparr>animationId := Some (nextHandle e), time := time s + 0.016, ctx := Some ?g\<rparr>"
  let ?e = "e\<lparr>nextHandle := Suc (nextHandle e), pending := pending e @ [nextHandle e]\<rparr>"
  have cy: "?cyc (s, e) = Inr (?s, ?e)"
    using cv cx by (simp add: cycle_def Scene3D_update_def Scene3D_render_def bindE_def Let_def)
  from t cy have a: "?anim (s, e) = Inr (?s, ?e)"
    and f2: "\<forall>n. frames ?anim n (?s, ?e) = turns ?cyc (2 * n) (?s, ?e)"
    and f1: "\<forall>n. frames ?anim n (s, e) = turns ?cyc n (s, e)"
    by auto
  have st: "start Scene3D_update Scene3D_render (s, e) = Inr (?s, ?e)"
    using a start_running(1) [OF run] by simp
  have s2: "canvas ?s = Some c" "ctx ?s = Some ?g" "pending ?e \<noteq> []"
    using cv by simp_all
  have n2: "renders ?s = renders s + 1" "time ?s = time s + 0.016"
    using cx by (simp_all add: renders_def)
  have "\<exists>s3 e3 s4 e4.
              frames ?anim n (?s, ?e) = Inr (s3, e3) \<and>
              time s3 = time s + real (2 * n + 1) * 0.016 \<and> renders s3 = renders s + (2 * n + 1) \<and>
              frames ?anim n (s, e) = Inr (s4, e4) \<and>
              time s4 = time s + real n * 0.016 \<and> renders s4 = renders s + n" for n
  proof -
    from turns_base [OF s2, of "2 * n"] obtain s3 e3 where
      3: "turns ?cyc (2 * n) (?s, ?e) = Inr (s3, e3)" "time s3 = time ?s + real (2 * n) * 0.016"
         "renders s3 = renders ?s + 2 * n"
      by blast
    from turns_base [OF cv cx pe, of n] obtain s4 e4 where
      4: "turns ?cyc n (s, e) = Inr (s4, e4)" "time s4 = time s + real n * 0.016"
         "renders s4 = renders s + n"
      by blast
    have "frames ?anim n (?s, ?e) = Inr (s3, e3)" using f2 3(1) by simp
    moreover have "time s3 = time s + real (2 * n + 1) * 0.016"
      using 3(2) n2(2) by (simp add: algebra_simps)
    moreover have "renders s3 = renders s + (2 * n + 1)" using 3(3) n2(1) by simp
    moreover have "frames ?anim n (s, e) = Inr (s4, e4)" using f1 4(1) by simp
    ultimately show ?thesis using 4(2,3) by blast
  qed
  with st show ?thesis by blast
qed

lemma second_start_base_app:
  assumes cv: "canvas s = Some c" and cx: "ctx s = Some g" and ch: "chain1 (s, e)"
  shows "\<exists>s2 e2. start_app Scene3D_update Scene3D_render_app (s, e) = Inr (s2, e2) \<and>
           (\<forall>n. \<exists>s3 e3 s4 e4.
              frames (animate_app Scene3D_update Scene3D_render_app) n (s2, e2) = Inr (s3, e3) \<and>
              time s3 = time s \<and> renders s3 = renders s + (2 * n + 1) \<and>
              frames (animate_app Scene3D_update Scene3D_render_app) n (s, e) = Inr (s4, e4) \<and>
              time s4 = time s \<and> renders s4 = renders s + n)"
proof -
  let ?anim = "animate_app Scene3D_update Scene3D_render_app"
  let ?cyc = "cycle_app Scene3D_update Scene3D_render_app"
  from ch have run: "isRunning s" and pe: "pending e \<noteq> []" by (auto simp: chain1_def)
  from cv have i: "hasCanvas s" by (simp add: hasCanvas_def)
  note t = second_start_turns [OF cycles_animate_app [OF keeps_Scene3D_update keeps_Scene3D_render_app stable_hasCanvas]
      animate_app_cycle i ch]
  let ?g = "g @ [ClearRect 0 0 (r_width (boundingRect c)) (r_height (boundingRect c))]
              @ renderDefault (boundingRect c) (now e * 0.001)"
  let ?s = "s\<lparr>animationId := Some (nextHandle e), ctx := Some ?g\<rparr>"
  let ?e = "e\<lparr>nextHandle := Suc (nextHandle e), pending := pending e @ [nextHandle e]\<rparr>"
  have cy: "?cyc (s, e) = Inr (?s, ?e)"
    using cv cx by (simp add: cycle_app_def Scene3D_update_def Scene3D_render_app_def bindE_def Let_def)
  from t cy have a: "?anim (s, e) = Inr (?s, ?e)"
    and f2: "\<forall>n. frames ?anim n (?s, ?e) = turns ?cyc (2 * n) (?s, ?e)"
    and f1: "\<forall>n. frames ?anim n (s, e) = turns ?cyc n (s, e)"
    by auto
  have st: "start_app Scene3D_update Scene3D_render_app (s, e) = Inr (?s, ?e)"
    using a start_running(2) [OF run] by simp
  have s2: "canvas ?s = Some c" "ctx ?s = Some ?g" "pending ?e \<noteq> []"
    using cv by simp_all
  have n2: "renders ?s = renders s + 1" "time ?s = time s"
    using cx by (simp_all add: renders_def)
  have "\<exists>s3 e3 s4 e4.
              frames ?anim n (?s, ?e) = Inr (s3, e3) \<and>
              time s3 = time s \<and> renders s3 = renders s + (2 * n + 1) \<and>
              frames ?anim n (s, e) = Inr (s4, e4) \<and>
              time s4 = time s \<and> renders s4 = renders s + n" for n
  proof -
    from turns_base_app [OF s2, of "2 * n"] obtain s3 e3 where
      3: "turns ?cyc (2 * n) (?s, ?e) = Inr (s3, e3)" "time s3 = time ?s"
         "renders s3 = renders ?s + 2 * n"
      by blast
    from turns_base_app [OF cv cx pe, of n] obtain s4 e4 where
      4: "turns ?cyc n (s, e) = Inr (s4, e4)" "time s4 = time s"
         "renders s4 = renders s + n"
      by blast
    have "frames ?anim n (?s, ?e) = Inr (s3, e3)" using f2 3(1) by simp
    moreover have "time s3 = time s" using 3(2) n2(2) by simp
    moreover have "renders s3 = renders s + (2 * n + 1)" using 3(3) n2(1) by simp
    moreover have "frames ?anim n (s, e) = Inr (s4, e4)" using f1 4(1) by simp
    ultimately show ?thesis using 4(2,3) by blast
  qed
  with st show ?thesis by blast
qed

text \<open>
  C10. \<^verbatim>\<open>start()\<close> does not look at the running flag. Called on a running scene with one
  callback pending, it runs one cycle (request, \<^verbatim>\<open>update\<close>, \<^verbatim>\<open>render\<close>) and returns with the
  old callback still pending and a second one requested. From then on every display refresh
  runs two cycles: \<open>n\<close> refreshes are \<open>2 * n\<close> cycles of \<^verbatim>\<open>update\<close> and \<^verbatim>\<open>render\<close>, after which
  the scene is running, two callbacks are pending and \<open>2 * n\<close> further callbacks have been
  requested. Without the second \<^verbatim>\<open>start()\<close>, \<open>n\<close> refreshes are \<open>n\<close> cycles. This holds in
  both copies, for \<^verbatim>\<open>update\<close> and \<^verbatim>\<open>render\<close> that return and leave flag and queue alone. For
  the base class on a scene with canvas and context: after the second \<^verbatim>\<open>start()\<close> and \<open>n\<close>
  refreshes the context has seen \<open>2 * n + 1\<close> more renders and (enhanced copy) the time has
  grown by \<open>(2 * n + 1) * 0.016\<close>, against \<open>n\<close> renders and \<open>n * 0.016\<close> without it.
\<close>

theorem second_start_doubles_cycles:
  assumes "keeps I update" and "keeps I render" and "stable I" and "I s" and "chain1 (s, e)"
  shows "(\<exists>s2 e2. start update render (s, e) = Inr (s2, e2) \<and>
            start update render (s, e) = cycle update render (s, e) \<and> isRunning s2 \<and>
            pending e2 = pending e @ [nextHandle e] \<and> length (pending e2) = 2 \<and>
            (\<forall>n. frames (animate update render) n (s2, e2) = turns (cycle update render) (2 * n) (s2, e2) \<and>
                 (\<exists>s3 e3. frames (animate update render) n (s2, e2) = Inr (s3, e3) \<and> isRunning s3 \<and>
                   length (pending e3) = 2 \<and> nextHandle e3 = nextHandle e2 + 2 * n)))
       \<and> (\<forall>n. frames (animate update render) n (s, e) = turns (cycle update render) n (s, e) \<and>
               (\<exists>s3 e3. frames (animate update render) n (s, e) = Inr (s3, e3) \<and> isRunning s3 \<and>
                   length (pending e3) = 1 \<and> nextHandle e3 = nextHandle e + n))
       \<and> (\<exists>s2 e2. start_app update render (s, e) = Inr (s2, e2) \<and>
            start_app update render (s, e) = cycle_app update render (s, e) \<and> isRunning s2 \<and>
            pending e2 = pending e @ [nextHandle e] \<and> length (pending e2) = 2 \<and>
            (\<forall>n. frames (animate_app update render) n (s2, e2) = turns (cycle_app update render) (2 * n) (s2, e2) \<and>
                 (\<exists>s3 e3. frames (animate_app update render) n (s2, e2) = Inr (s3, e3) \<and> isRunning s3 \<and>
                   length (pending e3) = 2 \<and> nextHandle e3 = nextHandle e2 + 2 * n)))
       \<and> (\<forall>n. frames (animate_app update render) n (s, e) = turns (cycle_app update render) n (s, e) \<and>
               (\<exists>s3 e3. frames (animate_app update render) n (s, e) = Inr (s3, e3) \<and> isRunning s3 \<and>
                   length (pending e3) = 1 \<and> nextHandle e3 = nextHandle e + n))
       \<and> (\<forall>c g. canvas s = Some c \<and> ctx s = Some g \<longrightarrow>
            (\<exists>s2 e2. start Scene3D_update Scene3D_render (s, e) = Inr (s2, e2) \<and>
               (\<forall>n. \<exists>s3 e3 s4 e4.
                  frames (animate Scene3D_update Scene3D_render) n (s2, e2) = Inr (s3, e3) \<and>
                  time s3 = time s + real (2 * n + 1) * 0.016 \<and> renders s3 = renders s + (2 * n + 1) \<and>
                  frames (animate Scene3D_update Scene3D_render) n (s, e) = Inr (s4, e4) \<and>
                  time s4 = time s + real n * 0.016 \<and> renders s4 = renders s + n)) \<and>
            (\<exists>s2 e2. start_app Scene3D_update Scene3D_render_app (s, e) = Inr (s2, e2) \<and>
               (\<forall>n. \<exists>s3 e3 s4 e4.
                  frames (animate_app Scene3D_update Scene3D_render_app) n (s2, e2) = Inr (s3, e3) \<and>
                  time s3 = time s \<and> renders s3 = renders s + (2 * n + 1) \<and>
                  frames (animate_app Scene3D_update Scene3D_render_app) n (s, e) = Inr (s4, e4) \<and>
                  time s4 = time s \<and> renders s4 = renders s + n)))"
proof -
  from assms(5) have run: "isRunning s" by (simp add: chain1_def)
  note g1 = second_start_turns [OF cycles_animate [OF assms(1-3)] animate_cycle assms(4,5)]
  note g2 = second_start_turns [OF cycles_animate_app [OF assms(1-3)] animate_app_cycle assms(4,5)]
  have g3: "\<forall>c g. canvas s = Some c \<and> ctx s = Some g \<longrightarrow>
            (\<exists>s2 e2. start Scene3D_update Scene3D_render (s, e) = Inr (s2, e2) \<and>
               (\<forall>n. \<exists>s3 e3 s4 e4.
                  frames (animate Scene3D_update Scene3D_render) n (s2, e2) = Inr (s3, e3) \<and>
                  time s3 = time s + real (2 * n + 1) * 0.016 \<and> renders s3 = renders s + (2 * n + 1) \<and>
                  frames (animate Scene3D_update Scene3D_render) n (s, e) = Inr (s4, e4) \<and>
                  time s4 = time s + real n * 0.016 \<and> renders s4 = renders s + n)) \<and>
            (\<exists>s2 e2. start_app Scene3D_update Scene3D_render_app (s, e) = Inr (s2, e2) \<and>
               (\<forall>n. \<exists>s3 e3 s4 e4.
                  frames (animate_app Scene3D_update Scene3D_render_app) n (s2, e2) = Inr (s3, e3) \<and>
                  time s3 = time s \<and> renders s3 = renders s + (2 * n + 1) \<and>
                  frames (animate_app Scene3D_update Scene3D_render_app) n (s, e) = Inr (s4, e4) \<and>
                  time s4 = time s \<and> renders s4 = renders s + n))"
  proof (intro allI impI, elim conjE)
    fix c g
    assume "canvas s = Some c" and "ctx s = Some g"
    from second_start_base [OF this assms(5)] second_start_base_app [OF this assms(5)]
    show "(\<exists>s2 e2. start Scene3D_update Scene3D_render (s, e) = Inr (s2, e2) \<and>
               (\<forall>n. \<exists>s3 e3 s4 e4.
                  frames (animate Scene3D_update Scene3D_render) n (s2, e2) = Inr (s3, e3) \<and>
                  time s3 = time s + real (2 * n + 1) * 0.016 \<and> renders s3 = renders s + (2 * n + 1) \<and>
                  frames (animate Scene3D_update Scene3D_render) n (s, e) = Inr (s4, e4) \<and>
                  time s4 = time s + real n * 0.016 \<and> renders s4 = renders s + n)) \<and>
            (\<exists>s2 e2. start_app Scene3D_update Scene3D_render_app (s, e) = Inr (s2, e2) \<and>
               (\<forall>n. \<exists>s3 e3 s4 e4.
                  frames (animate_app Scene3D_update Scene3D_render_app) n (s2, e2) = Inr (s3, e3) \<and>
                  time s3 = time s \<and> renders s3 = renders s + (2 * n + 1) \<and>
                  frames (animate_app Scene3D_update Scene3D_render_app) n (s, e) = Inr (s4, e4) \<and>
                  time s4 = time s \<and> renders s4 = renders s + n))"
      by (rule conjI)
  qed
  show ?thesis unfolding start_running [OF run]
    by (rule conjI [OF conjunct1 [OF g1] conjI [OF conjunct2 [OF g1]
          conjI [OF conjunct1 [OF g2] conjI [OF conjunct2 [OF g2] g3 [unfolded start_running [OF run]]]]]])
qed

theorem second_start_doubles_cycles_witness:
  "keeps hasCanvas Scene3D_update \<and> keeps hasCanvas Scene3D_render \<and> stable hasCanvas \<and>
   hasCanvas exScene \<and> chain1 (exScene, exEnv\<lparr>nextHandle := 2, pending := [1]\<rparr>) \<and>
   canvas exScene = Some (exCanvas True) \<and> ctx exScene = Some [] \<and>
   (\<exists>s2 e2. start Scene3D_update Scene3D_render (exScene, exEnv\<lparr>nextHandle := 2, pending := [1]\<rparr>) = Inr (s2, e2) \<and>
      pending e2 = [1, 2] \<and>
      (\<exists>s3 e3. frames (animate Scene3D_update Scene3D_render) 3 (s2, e2) = Inr (s3, e3) \<and>
         isRunning s3 \<and> length (pending e3) = 2 \<and> nextHandle e3 = nextHandle e2 + 6 \<and>
         time s3 = 0.112 \<and> renders s3 = 7)) \<and>
   (\<exists>s4 e4. frames (animate Scene3D_update Scene3D_render) 3 (exScene, exEnv\<lparr>nextHandle := 2, pending := [1]\<rparr>) = Inr (s4, e4) \<and>
         isRunning s4 \<and> length (pending e4) = 1 \<and> nextHandle e4 = 5 \<and>
         time s4 = 0.048 \<and> renders s4 = 3)"
proof -
  let ?e = "exEnv\<lparr>nextHandle := 2, pending := [1]\<rparr>"
  let ?anim = "animate Scene3D_update Scene3D_render"
  have h: "hasCanvas exScene" "chain1 (exScene, ?e)"
    by (simp_all add: hasCanvas_def exScene_def chain1_def)
  have x: "canvas exScene = Some (exCanvas True)" "ctx exScene = Some []"
    "time exScene = 0" "renders exScene = 0"
    by (simp_all add: exScene_def renders_def)
  note t = second_start_doubles_cycles [OF keeps_Scene3D_update keeps_Scene3D_render stable_hasCanvas h]
  from t [THEN conjunct1] obtain s2 e2 where
    2: "start Scene3D_update Scene3D_render (exScene, ?e) = Inr (s2, e2)" "pending e2 = pending ?e @ [nextHandle ?e]"
       "\<forall>n. frames ?anim n (s2, e2) = turns (cycle Scene3D_update Scene3D_render) (2 * n) (s2, e2) \<and>
          (\<exists>s3 e3. frames ?anim n (s2, e2) = Inr (s3, e3) \<and> isRunning s3 \<and>
                   length (pending e3) = 2 \<and> nextHandle e3 = nextHandle e2 + 2 * n)"
    by blast
  from t [THEN conjunct2, THEN conjunct2, THEN conjunct2, THEN conjunct2] have "\<forall>c g. canvas exScene = Some c \<and> ctx exScene = Some g \<longrightarrow>
            (\<exists>s2 e2. start Scene3D_update Scene3D_render (exScene, ?e) = Inr (s2, e2) \<and>
               (\<forall>n. \<exists>s3 e3 s4 e4.
                  frames ?anim n (s2, e2) = Inr (s3, e3) \<and>
                  time s3 = time exScene + real (2 * n + 1) * 0.016 \<and> renders s3 = renders exScene + (2 * n + 1) \<and>
                  frames ?anim n (exScene, ?e) = Inr (s4, e4) \<and>
                  time s4 = time exScene + real n * 0.016 \<and> renders s4 = renders exScene + n))"
    by blast
  from this [rule_format, of "exCanvas True" "[]"] x(1,2) 2(1)
  have "\<forall>n. \<exists>s3 e3 s4 e4.
                  frames ?anim n (s2, e2) = Inr (s3, e3) \<and>
                  time s3 = time exScene + real (2 * n + 1) * 0.016 \<and> renders s3 = renders exScene + (2 * n + 1) \<and>
                  frames ?anim n (exScene, ?e) = Inr (s4, e4) \<and>
                  time s4 = time exScene + real n * 0.016 \<and> renders s4 = renders exScene + n"
    by auto
  from this [rule_format, of 3] x(3,4) obtain s3 e3 s4 e4 where
    3: "frames ?anim 3 (s2, e2) = Inr (s3, e3)" "time s3 = 0.112" "renders s3 = 7"
       "frames ?anim 3 (exScene, ?e) = Inr (s4, e4)" "time s4 = 0.048" "renders s4 = 3"
    by auto
  from 2(3) [rule_format, of 3] 3(1)
  have 4: "isRunning s3" "length (pending e3) = 2" "nextHandle e3 = nextHandle e2 + 6"
    by auto
  from t [THEN conjunct2, THEN conjunct1]
  have "\<forall>n. \<exists>s3 e3. frames ?anim n (exScene, ?e) = Inr (s3, e3) \<and> isRunning s3 \<and>
                   length (pending e3) = 1 \<and> nextHandle e3 = nextHandle ?e + n"
    by blast
  from this [rule_format, of 3] 3(4)
  have 5: "isRunning s4" "length (pending e4) = 1" "nextHandle e4 = 5"
    by auto
  from 2(1,2) 3(1-3) 4
  have 6: "\<exists>s2 e2. start Scene3D_update Scene3D_render (exScene, ?e) = Inr (s2, e2) \<and>
      pending e2 = [1, 2] \<and>
      (\<exists>s3 e3. frames ?anim 3 (s2, e2) = Inr (s3, e3) \<and>
         isRunning s3 \<and> length (pending e3) = 2 \<and> nextHandle e3 = nextHandle e2 + 6 \<and>
         time s3 = 0.112 \<and> renders s3 = 7)"
    by auto
  from 3(4-6) 5
  have 7: "\<exists>s4 e4. frames ?anim 3 (exScene, ?e) = Inr (s4, e4) \<and>
         isRunning s4 \<and> length (pending e4) = 1 \<and> nextHandle e4 = 5 \<and>
         time s4 = 0.048 \<and> renders s4 = 3"
    by auto
  from keeps_Scene3D_update keeps_Scene3D_render stable_hasCanvas h x(1,2) 6 7 show ?thesis by blast
qed

subsection \<open>Scenes without a drawing surface\<close>

lemma Scene3D_new_noSurface:
  "noSurface cv \<Longrightarrow>
   Scene3D_new update render this0 cv opts e =
     Inr (this0\<lparr>canvas := cv, ctx := None, isRunning := False, animationId := None, time := 0,
            opt_particleCount := (case o_particleCount opts of None \<Rightarrow> 50 | Some n \<Rightarrow> n),
            opt_type := (case o_type opts of None \<Rightarrow> ''default'' | Some t \<Rightarrow> t)\<rparr>, e)"
  by (simp add: noSurface_def Scene3D_new_def init_def Let_def split: option.splits)

lemma Scene3D_new_app_noSurface:
  "noSurface cv \<Longrightarrow>
   Scene3D_new_app update render this0 cv e =
     Inr (this0\<lparr>canvas := cv, ctx := None, isRunning := False, animationId := None\<rparr>, e)"
  by (simp add: noSurface_def Scene3D_new_app_def init_app_def Let_def split: option.splits)

lemma random_sched [simp]:
  "pending (snd (random e)) = pending e" "nextHandle (snd (random e)) = nextHandle e"
  by (simp_all add: random_def)

lemma makeParticles_sched [simp]:
  "pending (snd (makeParticles r n e)) = pending e \<and> nextHandle (snd (makeParticles r n e)) = nextHandle e"
  by (induction n arbitrary: e) (simp_all add: Let_def case_prod_beta)

lemma makeShapes_sched [simp]:
  "pending (snd (makeShapes r n e)) = pending e \<and> nextHandle (snd (makeShapes r n e)) = nextHandle e"
  by (induction n arbitrary: e) (simp_all add: Let_def case_prod_beta)

lemma makeParticles_app_sched [simp]:
  "pending (snd (makeParticles_app w h n e)) = pending e \<and> nextHandle (snd (makeParticles_app w h n e)) = nextHandle e"
  by (induction n arbitrary: e) (simp_all add: Let_def case_prod_beta)

lemma makeShapes_app_sched [simp]:
  "pending (snd (makeShapes_app w h n e)) = pending e \<and> nextHandle (snd (makeShapes_app w h n e)) = nextHandle e"
  by (induction n arbitrary: e) (simp_all add: Let_def case_prod_beta)

lemma makeElements_sched [simp]:
  "pending (snd (makeElements n e)) = pending e \<and> nextHandle (snd (makeElements n e)) = nextHandle e"
  by (induction n arbitrary: e) (simp_all add: Let_def case_prod_beta)

lemma stop_idle: "\<not> isRunning s \<Longrightarrow> animationId s = None \<Longrightarrow> stop (s, e) = (s, e)"
  by (simp add: stop_def Let_def)

lemma inertI:
  assumes "res = Inr (s, e')" and "canvas s = cv" and "ctx s = None" and "\<not> isRunning s" and "animationId s = None"
    and "pending e' = pending e" and "nextHandle e' = nextHandle e"
    and "\<And>e1. render (s, e1) = Inr (s, e1)"
    and "\<And>e1. \<exists>s1 e2. startf (s, e1) = Inr (s1, e2) \<and> isRunning s1 \<and>
                animationId s1 = Some (nextHandle e1) \<and> pending e2 = pending e1 @ [nextHandle e1]"
  shows "inert cv render startf e res"
  using assms by (simp add: inert_def stop_idle dispose_def)

lemma base_inert:
  "noSurface cv \<Longrightarrow>
   inert cv Scene3D_render (start Scene3D_update Scene3D_render) e
     (Scene3D_new Scene3D_update Scene3D_render sceneAlloc cv opts e)"
  by (rule inertI [OF Scene3D_new_noSurface])
     (simp_all add: Scene3D_render_def start_def animate_def requestAnimationFrame_def
        Scene3D_update_def bindE_def Let_def)

lemma base_app_inert:
  "noSurface cv \<Longrightarrow>
   inert cv Scene3D_render_app (start_app Scene3D_update Scene3D_render_app) e
     (Scene3D_new_app Scene3D_update Scene3D_render_app sceneAlloc cv e)"
  by (rule inertI [OF Scene3D_new_app_noSurface])
     (simp_all add: Scene3D_render_app_def start_app_def animate_app_def requestAnimationFrame_def
        Scene3D_update_def bindE_def Let_def sceneAlloc_def)

lemma HeroScene_update_returns:
  assumes "particles s = Some ps" and "shapes s = Some shs"
  shows "\<exists>s'. HeroScene_update (s, e) = Inr (s', e) \<and> canvas s' = canvas s \<and> ctx s' = ctx s \<and>
           isRunning s' = isRunning s \<and> animationId s' = animationId s"
  using assms by (cases "canvas s") (simp_all add: HeroScene_update_def Let_def)

lemma HeroScene_update_app_returns:
  assumes "particles s = Some ps" and "shapes s = Some shs"
  shows "\<exists>s'. HeroScene_update_app (s, e) = Inr (s', e) \<and> canvas s' = canvas s \<and> ctx s' = ctx s \<and>
           isRunning s' = isRunning s \<and> animationId s' = animationId s"
  using assms by (cases "canvas s") (simp_all add: HeroScene_update_app_def Let_def)

lemma hero_inert:
  assumes "noSurface cv"
  shows "inert cv HeroScene_render (start HeroScene_update HeroScene_render) e (HeroScene_new cv e)"
proof -
  obtain s e' where new: "HeroScene_new cv e = Inr (s, e')" and
    f: "canvas s = cv" "ctx s = None" "\<not> isRunning s" "animationId s = None"
       "particles s \<noteq> None" "shapes s \<noteq> None" "pending e' = pending e" "nextHandle e' = nextHandle e"
    by (simp add: HeroScene_new_def Scene3D_new_noSurface [OF assms] bindE_def
        initializeElements_def heroAlloc_def Let_def case_prod_beta)
  show ?thesis
  proof (rule inertI [OF new f(1-4,7,8)])
    fix e1 :: env
    show "HeroScene_render (s, e1) = Inr (s, e1)"
      using f by (simp add: HeroScene_render_def)
    let ?s2 = "s\<lparr>isRunning := True, animationId := Some (nextHandle e1), time := time s + 0.016\<rparr>"
    let ?e2 = "e1\<lparr>nextHandle := Suc (nextHandle e1), pending := pending e1 @ [nextHandle e1]\<rparr>"
    from f obtain ps shs where "particles ?s2 = Some ps" "shapes ?s2 = Some shs" by auto
    from HeroScene_update_returns [OF this, of ?e2] obtain s3 where
      u: "HeroScene_update (?s2, ?e2) = Inr (s3, ?e2)" "ctx s3 = ctx ?s2" "isRunning s3 = isRunning ?s2"
         "animationId s3 = animationId ?s2"
      by blast
    then have "start HeroScene_update HeroScene_render (s, e1) = Inr (s3, ?e2)"
      using f by (simp add: start_def animate_def requestAnimationFrame_def HeroScene_render_def
          bindE_def Let_def)
    with u show "\<exists>s1 e2. start HeroScene_update HeroScene_render (s, e1) = Inr (s1, e2) \<and> isRunning s1 \<and>
        animationId s1 = Some (nextHandle e1) \<and> pending e2 = pending e1 @ [nextHandle e1]"
      by simp
  qed
qed

lemma hero_app_inert:
  assumes "noSurface cv"
  shows "inert cv HeroScene_render_app (start_app HeroScene_update_app HeroScene_render_app) e
     (HeroScene_new_app cv e)"
proof -
  obtain s e' where new: "HeroScene_new_app cv e = Inr (s, e')" and
    f: "canvas s = cv" "ctx s = None" "\<not> isRunning s" "animationId s = None"
       "particles s \<noteq> None" "shapes s \<noteq> None" "pending e' = pending e" "nextHandle e' = nextHandle e"
    by (simp add: HeroScene_new_app_def Scene3D_new_app_noSurface [OF assms] bindE_def
        initializeElements_app_def heroAlloc_def Let_def case_prod_beta)
  show ?thesis
  proof (rule inertI [OF new f(1-4,7,8)])
    fix e1 :: env
    show "HeroScene_render_app (s, e1) = Inr (s, e1)"
      using f by (simp add: HeroScene_render_app_def)
    let ?s2 = "s\<lparr>isRunning := True, animationId := Some (nextHandle e1)\<rparr>"
    let ?e2 = "e1\<lparr>nextHandle := Suc (nextHandle e1), pending := pending e1 @ [nextHandle e1]\<rparr>"
    from f obtain ps shs where "particles ?s2 = Some ps" "shapes ?s2 = Some shs" by auto
    from HeroScene_update_app_returns [OF this, of ?e2] obtain s3 where
      u: "HeroScene_update_app (?s2, ?e2) = Inr (s3, ?e2)" "ctx s3 = ctx ?s2" "isRunning s3 = isRunning ?s2"
         "animationId s3 = animationId ?s2"
      by blast
    then have "start_app HeroScene_update_app HeroScene_render_app (s, e1) = Inr (s3, ?e2)"
      using f by (simp add: start_app_def animate_app_def requestAnimationFrame_def
          HeroScene_render_app_def bindE_def Let_def)
    with u show "\<exists>s1 e2. start_app HeroScene_update_app HeroScene_render_app (s, e1) = Inr (s1, e2) \<and> isRunning s1 \<and>
        animationId s1 = Some (nextHandle e1) \<and> pending e2 = pending e1 @ [nextHandle e1]"
      by simp
  qed
qed

lemma canvas_inert:
  assumes "noSurface cv"
  shows "inert cv CanvasScene_render (start Scene3D_update CanvasScene_render) e (CanvasScene_new cv ty e)"
proof -
  obtain s e' where new: "CanvasScene_new cv ty e = Inr (s, e')" and
    f: "canvas s = cv" "ctx s = None" "\<not> isRunning s" "animationId s = None"
       "pending e' = pending e" "nextHandle e' = nextHandle e"
    by (simp add: CanvasScene_new_def Scene3D_new_noSurface [OF assms] bindE_def
        initElements_def canvasAlloc_def Let_def case_prod_beta)
  show ?thesis
    by (rule inertI [OF new f])
       (simp_all add: f CanvasScene_render_def start_def animate_def requestAnimationFrame_def
          Scene3D_update_def bindE_def Let_def)
qed

lemma canvas_app_inert:
  assumes "noSurface cv"
  shows "inert cv CanvasScene_render_app (start_app CanvasScene_update_app CanvasScene_render_app) e
     (CanvasScene_new_app cv ty e)"
proof -
  obtain s e' where new: "CanvasScene_new_app cv ty e = Inr (s, e')" and
    f: "canvas s = cv" "ctx s = None" "\<not> isRunning s" "animationId s = None"
       "pending e' = pending e" "nextHandle e' = nextHandle e"
    by (simp add: CanvasScene_new_app_def Scene3D_new_app_noSurface [OF assms] bindE_def
        canvasAlloc_def Let_def)
  show ?thesis
    by (rule inertI [OF new f])
       (simp_all add: f CanvasScene_render_app_def start_app_def animate_app_def requestAnimationFrame_def
          CanvasScene_update_app_def bindE_def Let_def)
qed

lemma inertD:
  assumes "inert cv render startf e res"
  obtains s e' s1 e2 where "res = Inr (s, e')" and "\<not> isRunning s" and "pending e' = pending e"
    and "startf (s, e') = Inr (s1, e2)" and "isRunning s1" and "pending e2 = pending e @ [nextHandle e]"
proof (cases res)
  case (Inl err)
  with assms show ?thesis by (simp add: inert_def)
next
  case (Inr p)
  obtain s e' where p: "p = (s, e')" by (cases p)
  with assms Inr have all: "\<not> isRunning s \<and> pending e' = pending e \<and> nextHandle e' = nextHandle e \<and>
      (\<forall>e1. \<exists>s1 e2. startf (s, e1) = Inr (s1, e2) \<and> isRunning s1 \<and>
            animationId s1 = Some (nextHandle e1) \<and> pending e2 = pending e1 @ [nextHandle e1])"
    by (simp add: inert_def)
  then have f: "\<not> isRunning s" "pending e' = pending e" "nextHandle e' = nextHandle e" by simp_all
  from all have "\<exists>s1 e2. startf (s, e') = Inr (s1, e2) \<and> isRunning s1 \<and>
            animationId s1 = Some (nextHandle e') \<and> pending e2 = pending e' @ [nextHandle e']"
    by blast
  then obtain s1 e2 where "startf (s, e') = Inr (s1, e2)" "isRunning s1"
    "pending e2 = pending e' @ [nextHandle e']" by blast
  with f Inr p that show ?thesis by simp
qed

text \<open>
  C8, as claimed, fails: on a scene constructed without canvas element, \<^verbatim>\<open>start()\<close> is not a
  no-op. The scene becomes running and a frame callback is requested.
\<close>

theorem start_without_surface_runs:
  "map_option isRunning (sceneOf (HeroScene_new None exEnv)) = Some False \<and>
   map_option pending (envOf (HeroScene_new None exEnv)) = Some [] \<and>
   map_option isRunning (sceneOf (bindE (HeroScene_new None exEnv) (start HeroScene_update HeroScene_render)))
     = Some True \<and>
   map_option pending (envOf (bindE (HeroScene_new None exEnv) (start HeroScene_update HeroScene_render)))
     = Some [1]"
proof -
  have "noSurface None" by (simp add: noSurface_def)
  from hero_inert [OF this, of exEnv] obtain s e' s1 e2 where
    "HeroScene_new None exEnv = Inr (s, e')" "\<not> isRunning s" "pending e' = pending exEnv"
    "start HeroScene_update HeroScene_render (s, e') = Inr (s1, e2)" "isRunning s1"
    "pending e2 = pending exEnv @ [nextHandle exEnv]"
    by (rule inertD)
  then show ?thesis by (simp add: sceneOf_def envOf_def bindE_def exEnv_def)
qed

text \<open>
  C8, amended. Without canvas element, or with one that yields no 2D context, each of the
  constructors (\<^verbatim>\<open>Scene3D\<close>, \<^verbatim>\<open>HeroScene\<close>, \<^verbatim>\<open>CanvasScene\<close>, in both copies) returns a scene
  that has no context, is not running and has requested no callback; on it \<^verbatim>\<open>render\<close>,
  \<^verbatim>\<open>stop\<close> and \<^verbatim>\<open>dispose\<close> change nothing. \<^verbatim>\<open>update\<close> of the base class changes nothing,
  and \<^verbatim>\<open>update\<close> of a hero scene changes nothing when there is no canvas element.
  \<^verbatim>\<open>start()\<close> raises no exception either, but it sets the running flag and requests a frame
  callback.
\<close>

theorem no_surface_construction:
  assumes "noSurface cv"
  shows "inert cv Scene3D_render (start Scene3D_update Scene3D_render) e
           (Scene3D_new Scene3D_update Scene3D_render sceneAlloc cv opts e) \<and>
         inert cv Scene3D_render_app (start_app Scene3D_update Scene3D_render_app) e
           (Scene3D_new_app Scene3D_update Scene3D_render_app sceneAlloc cv e) \<and>
         inert cv HeroScene_render (start HeroScene_update HeroScene_render) e (HeroScene_new cv e) \<and>
         inert cv HeroScene_render_app (start_app HeroScene_update_app HeroScene_render_app) e
           (HeroScene_new_app cv e) \<and>
         inert cv CanvasScene_render (start Scene3D_update CanvasScene_render) e
           (CanvasScene_new cv ty e) \<and>
         inert cv CanvasScene_render_app (start_app CanvasScene_update_app CanvasScene_render_app) e
           (CanvasScene_new_app cv ty e) \<and>
         (canvas sh = None \<longrightarrow>
            HeroScene_update (sh, e1) = Inr (sh, e1) \<and> HeroScene_update_app (sh, e1) = Inr (sh, e1)) \<and>
         Scene3D_update (sb, e1) = Inr (sb, e1)"
proof -
  have "canvas sh = None \<longrightarrow>
      HeroScene_update (sh, e1) = Inr (sh, e1) \<and> HeroScene_update_app (sh, e1) = Inr (sh, e1)"
    by (simp add: HeroScene_update_def HeroScene_update_app_def)
  moreover have "Scene3D_update (sb, e1) = Inr (sb, e1)"
    by (simp add: Scene3D_update_def)
  ultimately show ?thesis
    using base_inert [OF assms] base_app_inert [OF assms] hero_inert [OF assms]
      hero_app_inert [OF assms] canvas_inert [OF assms] canvas_app_inert [OF assms]
    by blast
qed

theorem no_surface_construction_witness:
  "noSurface None \<and> noSurface (Some (exCanvas False)) \<and> canvas heroAlloc = None \<and>
   inert None HeroScene_render (start HeroScene_update HeroScene_render) exEnv (HeroScene_new None exEnv) \<and>
   inert (Some (exCanvas False)) HeroScene_render (start HeroScene_update HeroScene_render) exEnv
     (HeroScene_new (Some (exCanvas False)) exEnv) \<and>
   inert None CanvasScene_render_app (start_app CanvasScene_update_app CanvasScene_render_app) exEnv
     (CanvasScene_new_app None (Some ''network'') exEnv) \<and>
   HeroScene_update (heroAlloc, exEnv) = Inr (heroAlloc, exEnv)"
proof -
  have n: "noSurface None" "noSurface (Some (exCanvas False))" "canvas heroAlloc = None"
    by (simp_all add: noSurface_def exCanvas_def heroAlloc_def)
  note a = no_surface_construction [OF n(1), of exEnv "\<lparr>o_particleCount = None, o_type = None\<rparr>"
      "Some ''network''" heroAlloc exEnv sceneAlloc]
  note b = no_surface_construction [OF n(2), of exEnv "\<lparr>o_particleCount = None, o_type = None\<rparr>"
      "Some ''network''" heroAlloc exEnv sceneAlloc]
  from a b n show ?thesis by blast
qed

text \<open>
  Two further facts about the same code. \<^verbatim>\<open>setupCanvas\<close> has no guard and throws on a scene
  without canvas or without context. With a canvas that does yield a context, the base
  constructor runs a first frame before the subclass constructor has assigned its arrays, so
  that \<^verbatim>\<open>new HeroScene\<close> throws in \<^verbatim>\<open>update\<close>, and \<^verbatim>\<open>new CanvasScene\<close> of kind
  \<^verbatim>\<open>'particle'\<close> (enhanced copy) throws in \<^verbatim>\<open>render\<close>.
\<close>

lemma setupCanvas_throws: "canvas s = None \<or> ctx s = None \<Longrightarrow> setupCanvas (s, e) = Inl TypeError"
  by (auto simp: setupCanvas_def Let_def split: option.splits)

lemma HeroScene_new_throws:
  assumes "context2d c"
  shows "HeroScene_new (Some c) e = Inl TypeError" and "HeroScene_new_app (Some c) e = Inl TypeError"
  using assms
  by (simp_all add: HeroScene_new_def HeroScene_new_app_def Scene3D_new_def Scene3D_new_app_def
      init_def init_app_def setupCanvas_def start_def start_app_def animate_def animate_app_def
      requestAnimationFrame_def HeroScene_update_def HeroScene_update_app_def heroAlloc_def
      bindE_def Let_def)

lemma CanvasScene_new_particle_throws:
  assumes "context2d c"
  shows "CanvasScene_new (Some c) (Some ''particle'') e = Inl TypeError"
  using assms
  by (simp add: CanvasScene_new_def Scene3D_new_def init_def setupCanvas_def start_def animate_def
      requestAnimationFrame_def Scene3D_update_def CanvasScene_render_def canvasAlloc_def
      bindE_def Let_def)

subsection \<open>Patterns as functions of time\<close>

lemma rand_random [simp]: "rand (snd (random e)) = rand e"
  by (simp add: random_def)

lemma fst_random [simp]: "fst (random e) = rand e (randPos e)"
  by (simp add: random_def)


























end
